theory Spec2Isabelle
  imports Main "HOL-Library.Sublist" "HOL-Library.AList"
begin

section \<open>JavaScript values\<close>

text \<open>
  The values of the untyped parts of the code (parsed JSON, JWT payloads, ceremony
  responses). The payload of a number is left abstract (type \<open>'n\<close>): no function of the
  library inspects a number, it only prints it or tests it for being falsy, and both are
  taken from the platform.
\<close>

datatype 'n jsval =
    JUndefined
  | JNull
  | JBool bool
  | JNum 'n
  | JStr string
  | JArr "'n jsval list"
  | JObj "(string \<times> 'n jsval) list"

text \<open>
  Modelled from the spec: the enumeration \<open>AuthMethodType\<close> is declared in
  \<open>@lit-protocol/constants\<close>, which is not among the sources. The spec lists
  \<open>EthWallet, WebAuthn, AppleJwt, GoogleJwt, Discord, OTP, ...\<close>; the last constructor
  stands for any value beyond the six named ones.
\<close>

datatype AuthMethodType =
    EthWallet
  | WebAuthn
  | AppleJwt
  | GoogleJwt
  | Discord
  | OTP
  | OtherAuthMethodType nat

text \<open>
  Every \<open>throw\<close> of the sources is a constructor, named after its message; the last
  seven are the exceptions of the built-ins and of the external libraries.
\<close>

datatype error =
    RedirectUriMismatch string string
    \<comment> \<open>Current url "..." does not match provided redirect uri "..."\<close>
  | ProviderError string
    \<comment> \<open>\<open>throw new Error(error)\<close>, the \<open>error\<close> query parameter\<close>
  | ProviderMismatch "string option"
    \<comment> \<open>OAuth provider "..." passed in redirect callback URL does not match "apple"\<close>
  | InvalidStateParameter "string option"
    \<comment> \<open>Invalid state parameter "..." passed in redirect callback URL\<close>
  | MissingIdToken
    \<comment> \<open>Missing ID token in redirect callback URL for Apple OAuth\<close>
  | IdTokenNotDefined
    \<comment> \<open>Id token is not defined. Call authenticate first.\<close>
  | AuthSigUndefined
    \<comment> \<open>Auth signature is undefined\<close>
  | AuthSigNotDefined
    \<comment> \<open>Auth signature is not defined. Call authenticate first.\<close>
  | AuthDataNotDefined
    \<comment> \<open>Authentication data is not defined. Call authenticate first.\<close>
  | NoLoginRoute string
    \<comment> \<open>No login route available for the given provider "..."\<close>
  | InvalidAuthMethodType AuthMethodType
    \<comment> \<open>Invalid auth method type "..." passed\<close>
  | InvalidTokenLength
    \<comment> \<open>Invalid token length\<close>
  | UnableToFetchDiscordUserInfo
    \<comment> \<open>Unable to fetch Discord user info\<close>
  | SyntaxError
  | TypeError
  | URIError
  | InvalidCharacterError
  | JWTInvalid
  | InvalidArgument
  | Rejected string
    \<comment> \<open>a rejection raised inside an external collaborator\<close>

text \<open>
  \<open>SyntaxError\<close> is thrown by \<open>JSON.parse\<close>, \<open>TypeError\<close> by a property read on
  \<open>undefined\<close> or \<open>null\<close> and by a call of what is no function, \<open>URIError\<close> by
  \<open>decodeURIComponent\<close>, \<open>InvalidCharacterError\<close> by \<open>atob\<close> and \<open>btoa\<close>,
  \<open>JWTInvalid\<close> by \<open>jose\<close>, \<open>InvalidArgument\<close> by \<open>ethers\<close>.
\<close>

record AuthMethod =
  authMethodType :: AuthMethodType
  accessToken :: string

record AuthSig =
  sig :: string
  derivedVia :: string
  signedMessage :: string
  address :: string

record SiweFields =
  siwe_domain :: string
  siwe_uri :: string
  siwe_address :: string
  siwe_version :: string
  siwe_chainId :: int
  siwe_expirationTime :: string

section \<open>The platform: built-ins and external libraries\<close>

text \<open>
  What the sources import or find in the browser is not code of the library. Each such
  function is a field of the record below, and every theorem holds for every platform.
  A function that can throw returns \<open>None\<close> (or \<open>Inl\<close>) where it does.
\<close>

record 'n platform =
  JSON_parse :: "string \<Rightarrow> 'n jsval option"
    \<comment> \<open>\<open>None\<close>: SyntaxError\<close>
  JSON_stringify :: "'n jsval \<Rightarrow> string"
    \<comment> \<open>of \<open>undefined\<close>: the text \<open>undefined\<close>, which is what \<open>JSON.parse\<close> then reads\<close>
  Number_toString :: "'n \<Rightarrow> string"
  Number_falsy :: "'n \<Rightarrow> bool"
    \<comment> \<open>zero and NaN\<close>
  btoa :: "string \<Rightarrow> string option"
    \<comment> \<open>\<open>None\<close>: InvalidCharacterError\<close>
  atob :: "string \<Rightarrow> string option"
    \<comment> \<open>\<open>None\<close>: InvalidCharacterError\<close>
  decodeURIComponent :: "string \<Rightarrow> string option"
    \<comment> \<open>\<open>None\<close>: URIError\<close>
  URLSearchParams :: "string \<Rightarrow> (string \<times> string) list"
    \<comment> \<open>the entries of \<open>new URLSearchParams(search)\<close>, in order\<close>
  URLSearchParams_toString :: "(string \<times> string) list \<Rightarrow> string"
  nanoid :: "nat \<Rightarrow> nat \<Rightarrow> string"
    \<comment> \<open>the identifier drawn at a state of the random source, of the size asked for\<close>
  keccak256 :: "nat list \<Rightarrow> string"
  toUtf8Bytes :: "string \<Rightarrow> nat list"
  getAddress :: "string \<Rightarrow> string option"
    \<comment> \<open>\<open>ethers.utils.getAddress\<close>, the EIP-55 form; \<open>None\<close>: InvalidArgument\<close>
  decodeJwt :: "string \<Rightarrow> 'n jsval option"
    \<comment> \<open>\<open>jose.decodeJwt\<close>; \<open>None\<close>: JWTInvalid\<close>
  parseJWT :: "string \<Rightarrow> error + 'n jsval"
    \<comment> \<open>imported from \<open>../utils\<close> by the Apple provider; not in the sources at hand\<close>
  Buffer_base64_ascii :: "string \<Rightarrow> string"
    \<comment> \<open>\<open>Buffer.from(s, 'base64').toString('ascii')\<close>\<close>
  fetchDiscordMe :: "string \<Rightarrow> error + bool \<times> (error + 'n jsval)"
    \<comment> \<open>the request to \<open>/users/@me\<close>: \<open>ok\<close> and the outcome of \<open>json()\<close>\<close>
  LIT_CHAINS :: "string \<Rightarrow> int option"
    \<comment> \<open>the \<open>chainId\<close> of a chain of the registry\<close>
  toISOString :: "int \<Rightarrow> string"
    \<comment> \<open>\<open>new Date(ms).toISOString()\<close>\<close>
  convertToISOString :: "int \<Rightarrow> string \<Rightarrow> string"
    \<comment> \<open>of the storage provider\<close>
  prepareMessage :: "SiweFields \<Rightarrow> error + string"
    \<comment> \<open>\<open>new SiweMessage(fields).prepareMessage()\<close>\<close>
  checkAndSignAuthMessage :: "string \<Rightarrow> string option \<Rightarrow> error + AuthSig option"
    \<comment> \<open>called with \<open>chain\<close> and, when given, \<open>expiration\<close>\<close>
  getLatestBlockHash :: "string \<Rightarrow> error + string"
    \<comment> \<open>\<open>provider.getBlock('latest')\<close> at an RPC URL, then \<open>.hash\<close>\<close>
  arrayify :: "string \<Rightarrow> nat list option"
    \<comment> \<open>\<open>None\<close>: InvalidArgument\<close>
  base64url :: "nat list \<Rightarrow> string"
  base64url_encode :: "'n jsval \<Rightarrow> error + string"
  startAuthentication :: "string \<Rightarrow> int \<Rightarrow> string \<Rightarrow> string \<Rightarrow> error + 'n jsval"
    \<comment> \<open>the ceremony, given \<open>challenge\<close>, \<open>timeout\<close>, \<open>userVerification\<close>, \<open>rpId\<close>\<close>

text \<open>Calls to the collaborators of the wallet flow, in the order they are made.\<close>

datatype call =
    CheckAndSign string "string option"
  | SignMessage string

text \<open>
  The browser: the location, session storage (an association list: \<open>setItem\<close> replaces
  the value of a key), the navigations asked for, the clock, the state of the random
  source and the log of calls.
\<close>

record window =
  location_href :: string
  location_search :: string
  location_pathname :: string
  location_origin :: string
  location_hostname :: string
  sessionStorage :: "(string \<times> string) list"
  assigned :: "string list"
  now :: int
  rng :: nat
  calls :: "call list"

section \<open>Conversions of the language\<close>

text \<open>\<open>!!x\<close> for a string that may be absent.\<close>

definition truthy :: "string option \<Rightarrow> bool" where
  "truthy x = (case x of None \<Rightarrow> False | Some s \<Rightarrow> s \<noteq> [])"

text \<open>\<open>!!x\<close> for a value.\<close>

definition truthy_val :: "'n platform \<Rightarrow> 'n jsval \<Rightarrow> bool" where
  "truthy_val P v =
     (case v of
        JUndefined \<Rightarrow> False
      | JNull \<Rightarrow> False
      | JBool b \<Rightarrow> b
      | JNum n \<Rightarrow> \<not> Number_falsy P n
      | JStr s \<Rightarrow> s \<noteq> []
      | JArr _ \<Rightarrow> True
      | JObj _ \<Rightarrow> True)"

text \<open>
  \<open>v.k\<close> and \<open>v[k]\<close>, for the keys the sources read (none of them is a property of a
  prototype): a TypeError on \<open>undefined\<close> and \<open>null\<close>, \<open>undefined\<close> where the key is
  missing.
\<close>

fun getprop :: "'n jsval \<Rightarrow> string \<Rightarrow> error + 'n jsval" where
  "getprop JUndefined k = Inl TypeError"
| "getprop JNull k = Inl TypeError"
| "getprop (JObj fs) k = Inr (case map_of fs k of None \<Rightarrow> JUndefined | Some v \<Rightarrow> v)"
| "getprop v k = Inr JUndefined"

text \<open>\<open>v?.k\<close>: \<open>undefined\<close> on \<open>undefined\<close> and \<open>null\<close>.\<close>

definition getprop_opt :: "'n jsval \<Rightarrow> string \<Rightarrow> 'n jsval" where
  "getprop_opt v k = (case getprop v k of Inl _ \<Rightarrow> JUndefined | Inr x \<Rightarrow> x)"

text \<open>
  \<open>v.k = x\<close>: a TypeError on \<open>undefined\<close> and \<open>null\<close>, no effect on a primitive; on
  an array the property is set beside its elements, where neither \<open>JSON.stringify\<close>
  nor a later read of the sources sees it.
\<close>

fun setprop :: "'n jsval \<Rightarrow> string \<Rightarrow> 'n jsval \<Rightarrow> error + 'n jsval" where
  "setprop JUndefined k x = Inl TypeError"
| "setprop JNull k x = Inl TypeError"
| "setprop (JObj fs) k x = Inr (JObj (AList.update k x fs))"
| "setprop v k x = Inr v"

fun join :: "string \<Rightarrow> string list \<Rightarrow> string" where
  "join sep [] = []"
| "join sep [x] = x"
| "join sep (x # y # ys) = x @ sep @ join sep (y # ys)"

text \<open>
  The conversion to a string that a template literal applies. An object is printed by the
  \<open>toString\<close> it inherits unless it has a key \<open>toString\<close> of its own: a value that
  came out of JSON is no function, the inherited \<open>valueOf\<close> returns the object, and the
  conversion throws a TypeError. An array joins the texts of its elements, \<open>undefined\<close>
  and \<open>null\<close> being empty, and fails where the first of them fails.
\<close>

fun ToString :: "'n platform \<Rightarrow> 'n jsval \<Rightarrow> error + string"
  and ToString_elements :: "'n platform \<Rightarrow> 'n jsval list \<Rightarrow> error + string list" where
  "ToString P JUndefined = Inr ''undefined''"
| "ToString P JNull = Inr ''null''"
| "ToString P (JBool b) = Inr (if b then ''true'' else ''false'')"
| "ToString P (JNum n) = Inr (Number_toString P n)"
| "ToString P (JStr s) = Inr s"
| "ToString P (JArr xs) =
     (case ToString_elements P xs of Inl e \<Rightarrow> Inl e | Inr parts \<Rightarrow> Inr (join '','' parts))"
| "ToString P (JObj fs) =
     (if map_of fs ''toString'' \<noteq> None then Inl TypeError else Inr ''[object Object]'')"
| "ToString_elements P [] = Inr []"
| "ToString_elements P (x # xs) =
     (case (if x = JUndefined \<or> x = JNull then Inr [] else ToString P x) of
        Inl e \<Rightarrow> Inl e
      | Inr part \<Rightarrow>
          (case ToString_elements P xs of Inl e \<Rightarrow> Inl e | Inr parts \<Rightarrow> Inr (part # parts)))"

text \<open>
  \<open>toLowerCase\<close> on code units below 256: the capital letters are \<open>A\<close> to \<open>Z\<close> and
  \<open>0xC0\<close> to \<open>0xDE\<close> without \<open>0xD7\<close>, each 32 below its small letter.
\<close>

definition lower_char :: "char \<Rightarrow> char" where
  "lower_char c =
     (let n = (of_char c :: nat) in
      if (65 \<le> n \<and> n \<le> 90) \<or> (192 \<le> n \<and> n \<le> 222 \<and> n \<noteq> 215)
      then char_of (n + 32) else c)"

definition toLowerCase :: "string \<Rightarrow> string" where
  "toLowerCase s = map lower_char s"

text \<open>\<open>s.split(c)\<close> for a separator of one character: never empty.\<close>

fun str_split :: "char \<Rightarrow> string \<Rightarrow> string list" where
  "str_split c [] = [[]]"
| "str_split c (x # xs) =
     (if x = c then [] # str_split c xs
      else (case str_split c xs of
              [] \<Rightarrow> [[x]]
            | y # ys \<Rightarrow> (x # y) # ys))"

text \<open>\<open>v.toLowerCase()\<close> and \<open>v.split(c)\<close> of a value typed by a cast only.\<close>

definition val_toLowerCase :: "'n jsval \<Rightarrow> error + string" where
  "val_toLowerCase v = (case v of JStr s \<Rightarrow> Inr (toLowerCase s) | _ \<Rightarrow> Inl TypeError)"

definition val_split :: "char \<Rightarrow> 'n jsval \<Rightarrow> error + string list" where
  "val_split c v = (case v of JStr s \<Rightarrow> Inr (str_split c s) | _ \<Rightarrow> Inl TypeError)"

section \<open>The utilities of the authentication client\<close>

definition STATE_PARAM_KEY :: string where
  "STATE_PARAM_KEY = ''lit-state-param''"

definition isSocialLoginSupported :: "string \<Rightarrow> bool" where
  "isSocialLoginSupported provider = (provider \<in> set [''google'', ''discord''])"

definition getLoginRoute :: "string \<Rightarrow> error + string" where
  "getLoginRoute provider =
     (if provider = ''google'' then Inr ''/auth/google''
      else if provider = ''discord'' then Inr ''/auth/discord''
      else Inl (NoLoginRoute provider))"

text \<open>
  \<open>createQueryParams\<close>: the parameters whose value is \<open>undefined\<close> (here \<open>None\<close>) are
  dropped, the others go through \<open>URLSearchParams\<close>.
\<close>

definition createQueryParams :: "'n platform \<Rightarrow> (string \<times> string option) list \<Rightarrow> string" where
  "createQueryParams P params =
     URLSearchParams_toString P
       (map (\<lambda>(k, v). (k, the v)) (filter (\<lambda>(k, v). v \<noteq> None) params))"

definition setStateParam :: "'n platform \<Rightarrow> window \<Rightarrow> string \<times> window" where
  "setStateParam P w =
     (let state = nanoid P (rng w) 15
      in (state,
          w\<lparr>sessionStorage := AList.update STATE_PARAM_KEY state (sessionStorage w),
            rng := Suc (rng w)\<rparr>))"

definition getStateParam :: "window \<Rightarrow> string option" where
  "getStateParam w = map_of (sessionStorage w) STATE_PARAM_KEY"

definition removeStateParam :: "window \<Rightarrow> window" where
  "removeStateParam w = w\<lparr>sessionStorage := AList.delete STATE_PARAM_KEY (sessionStorage w)\<rparr>"

definition encode :: "'n platform \<Rightarrow> string \<Rightarrow> error + string" where
  "encode P v = (case btoa P v of None \<Rightarrow> Inl InvalidCharacterError | Some s \<Rightarrow> Inr s)"

definition decode :: "'n platform \<Rightarrow> string \<Rightarrow> error + string" where
  "decode P v = (case atob P v of None \<Rightarrow> Inl InvalidCharacterError | Some s \<Rightarrow> Inr s)"

text \<open>
  \<open>prepareLoginUrl\<close>: the route is looked up first, inside the template of line 32; the
  state parameter is drawn and stored only after it.
\<close>

definition prepareLoginUrl ::
  "'n platform \<Rightarrow> string \<Rightarrow> string \<Rightarrow> window \<Rightarrow> (error + string) \<times> window" where
  "prepareLoginUrl P provider redirect w =
     (case getLoginRoute provider of
        Inl e \<Rightarrow> (Inl e, w)
      | Inr route \<Rightarrow>
          (let loginUrl = ''https://login.litgateway.com'' @ route;
               (st, w') = setStateParam P w
           in case encode P st of
                Inl e \<Rightarrow> (Inl e, w')
              | Inr state \<Rightarrow>
                  (let queryAuthParams = createQueryParams P [(''app_redirect'', Some redirect)]
                   in (Inr (loginUrl @ ''?'' @ queryAuthParams @ ''&state='' @ state), w'))))"

record LoginUrlParams =
  lp_provider :: "string option"
  lp_accessToken :: "string option"
  lp_idToken :: "string option"
  lp_state :: "string option"
  lp_error :: "string option"

text \<open>\<open>searchParams.get(k)\<close>: the first value of the key, or \<open>null\<close>.\<close>

definition parseLoginParams :: "'n platform \<Rightarrow> string \<Rightarrow> LoginUrlParams" where
  "parseLoginParams P search =
     (let searchParams = URLSearchParams P search
      in \<lparr>lp_provider = map_of searchParams ''provider'',
          lp_accessToken = map_of searchParams ''access_token'',
          lp_idToken = map_of searchParams ''id_token'',
          lp_state = map_of searchParams ''state'',
          lp_error = map_of searchParams ''error''\<rparr>)"

definition isSignInRedirect :: "'n platform \<Rightarrow> string \<Rightarrow> window \<Rightarrow> bool" where
  "isSignInRedirect P redirect w =
     (if \<not> prefix redirect (location_href w) then False
      else (let ps = parseLoginParams P (location_search w)
            in truthy (lp_provider ps) \<or> truthy (lp_accessToken ps) \<or> truthy (lp_idToken ps)
               \<or> truthy (lp_state ps) \<or> truthy (lp_error ps)))"

definition getProviderFromUrl :: "'n platform \<Rightarrow> window \<Rightarrow> string option" where
  "getProviderFromUrl P w = lp_provider (parseLoginParams P (location_search w))"

text \<open>
  \<open>getRPIdFromOrigin\<close>. The first pattern, \<open>(^\w+:|^)\/\/\<close>, matches at the start only:
  a run of word characters, a colon and two slashes, or the two slashes alone. The second,
  \<open>:\d+$\<close>, matches a colon and one or more digits at the end.
\<close>

definition is_word_char :: "char \<Rightarrow> bool" where
  "is_word_char c =
     (let n = (of_char c :: nat)
      in (48 \<le> n \<and> n \<le> 57) \<or> (65 \<le> n \<and> n \<le> 90) \<or> (97 \<le> n \<and> n \<le> 122) \<or> n = 95)"

definition is_digit :: "char \<Rightarrow> bool" where
  "is_digit c = (let n = (of_char c :: nat) in 48 \<le> n \<and> n \<le> 57)"

definition strip_protocol :: "string \<Rightarrow> string" where
  "strip_protocol s =
     (let w = takeWhile is_word_char s; r = dropWhile is_word_char s
      in if w \<noteq> [] \<and> prefix ''://'' r then drop 3 r
         else if prefix ''//'' s then drop 2 s
         else s)"

definition strip_port :: "string \<Rightarrow> string" where
  "strip_port s =
     (let r = rev s; ds = takeWhile is_digit r; rest = dropWhile is_digit r
      in if ds \<noteq> [] \<and> prefix '':'' rest then rev (tl rest) else s)"

definition getRPIdFromOrigin :: "string \<Rightarrow> string" where
  "getRPIdFromOrigin origin = strip_port (strip_protocol origin)"

subsection \<open>The derivation rules\<close>

text \<open>\<open>utils.keccak256(utils.toUtf8Bytes(s))\<close>.\<close>

definition hash_text :: "'n platform \<Rightarrow> string \<Rightarrow> string" where
  "hash_text P s = keccak256 P (toUtf8Bytes P s)"

definition getDiscordUserInfo :: "'n platform \<Rightarrow> string \<Rightarrow> error + 'n jsval" where
  "getDiscordUserInfo P token =
     (case fetchDiscordMe P token of
        Inl e \<Rightarrow> Inl e
      | Inr (ok, body) \<Rightarrow> if ok then body else Inl UnableToFetchDiscordUserInfo)"

definition getDiscordAuthMethodId :: "'n platform \<Rightarrow> AuthMethod \<Rightarrow> error + 'n jsval" where
  "getDiscordAuthMethodId P authMethod =
     (case getDiscordUserInfo P (accessToken authMethod) of
        Inl e \<Rightarrow> Inl e
      | Inr user \<Rightarrow>
          (case getprop user ''id'' of
             Inl e \<Rightarrow> Inl e
           | Inr uid \<Rightarrow>
               (case ToString P uid of
                  Inl e \<Rightarrow> Inl e
                | Inr userId \<Rightarrow> Inr (JStr (hash_text P (userId @ '':1052874239658692668''))))))"

definition getGoogleUserInfo :: "'n platform \<Rightarrow> string \<Rightarrow> error + 'n jsval" where
  "getGoogleUserInfo P idToken =
     (case decodeJwt P idToken of None \<Rightarrow> Inl JWTInvalid | Some claims \<Rightarrow> Inr claims)"

definition getGoogleAuthMethodId :: "'n platform \<Rightarrow> AuthMethod \<Rightarrow> error + 'n jsval" where
  "getGoogleAuthMethodId P authMethod =
     (case getGoogleUserInfo P (accessToken authMethod) of
        Inl e \<Rightarrow> Inl e
      | Inr payload \<Rightarrow>
          (case getprop payload ''sub'' of
             Inl e \<Rightarrow> Inl e
           | Inr sub \<Rightarrow>
               (case getprop payload ''aud'' of
                  Inl e \<Rightarrow> Inl e
                | Inr aud \<Rightarrow>
                    (case ToString P sub of
                       Inl e \<Rightarrow> Inl e
                     | Inr subject \<Rightarrow>
                         (case ToString P aud of
                            Inl e \<Rightarrow> Inl e
                          | Inr audience \<Rightarrow>
                              Inr (JStr (hash_text P (subject @ '':'' @ audience))))))))"

definition getEthWalletAuthMethodId :: "'n platform \<Rightarrow> AuthMethod \<Rightarrow> error + 'n jsval" where
  "getEthWalletAuthMethodId P authMethod =
     (case JSON_parse P (accessToken authMethod) of
        None \<Rightarrow> Inl SyntaxError
      | Some authSig \<Rightarrow> getprop authSig ''address'')"

definition getWebAuthnAuthMethodId :: "'n platform \<Rightarrow> AuthMethod \<Rightarrow> error + 'n jsval" where
  "getWebAuthnAuthMethodId P authMethod =
     (case JSON_parse P (accessToken authMethod) of
        None \<Rightarrow> Inl SyntaxError
      | Some data \<Rightarrow>
          (case getprop data ''rawId'' of
             Inl e \<Rightarrow> Inl e
           | Inr rawId \<Rightarrow>
               (case ToString P rawId of
                  Inl e \<Rightarrow> Inl e
                | Inr shown \<Rightarrow> Inr (JStr (hash_text P (shown @ '':lit''))))))"

definition parseOTPJWT :: "'n platform \<Rightarrow> string \<Rightarrow> error + 'n jsval" where
  "parseOTPJWT P jwt =
     (let parts = str_split CHR ''.'' jwt
      in if length parts \<noteq> 3 then Inl InvalidTokenLength
         else (case JSON_parse P (Buffer_base64_ascii P (parts ! 1)) of
                 None \<Rightarrow> Inl SyntaxError
               | Some parsedBody \<Rightarrow> Inr parsedBody))"

definition getOTPMethodId :: "'n platform \<Rightarrow> AuthMethod \<Rightarrow> error + 'n jsval" where
  "getOTPMethodId P authMethod =
     (case parseOTPJWT P (accessToken authMethod) of
        Inl e \<Rightarrow> Inl e
      | Inr tokenBody \<Rightarrow>
          (case getprop tokenBody ''orgId'' of
             Inl e \<Rightarrow> Inl e
           | Inr org \<Rightarrow>
               (case val_toLowerCase org of
                  Inl e \<Rightarrow> Inl e
                | Inr orgId \<Rightarrow>
                    (case getprop tokenBody ''extraData'' of
                       Inl e \<Rightarrow> Inl e
                     | Inr message \<Rightarrow>
                         (case val_split CHR ''|'' message of
                            Inl e \<Rightarrow> Inl e
                          | Inr contents \<Rightarrow>
                              (let userId = hd contents
                               in Inr (JStr (hash_text P (userId @ '':'' @ orgId)))))))))"

text \<open>The dispatcher: the five cases of the \<open>switch\<close>, in its order, and its default.\<close>

definition getAuthMethodId :: "'n platform \<Rightarrow> AuthMethod \<Rightarrow> error + 'n jsval" where
  "getAuthMethodId P authMethod =
     (case authMethodType authMethod of
        GoogleJwt \<Rightarrow> getGoogleAuthMethodId P authMethod
      | Discord \<Rightarrow> getDiscordAuthMethodId P authMethod
      | EthWallet \<Rightarrow> getEthWalletAuthMethodId P authMethod
      | WebAuthn \<Rightarrow> getWebAuthnAuthMethodId P authMethod
      | OTP \<Rightarrow> getOTPMethodId P authMethod
      | t \<Rightarrow> Inl (InvalidAuthMethodType t))"

section \<open>The Apple provider\<close>

record AppleProvider =
  redirectUri :: string
  priv_idToken :: "string option"
    \<comment> \<open>the private field \<open>#idToken\<close>\<close>

definition AppleProvider_new :: "string option \<Rightarrow> window \<Rightarrow> AppleProvider" where
  "AppleProvider_new redirect w =
     \<lparr>redirectUri = (if truthy redirect then the redirect else location_origin w),
      priv_idToken = None\<rparr>"

definition AppleProvider_signIn ::
  "'n platform \<Rightarrow> AppleProvider \<Rightarrow> window \<Rightarrow> (error + unit) \<times> window" where
  "AppleProvider_signIn P this w =
     (case prepareLoginUrl P ''apple'' (redirectUri this) w of
        (Inl e, w') \<Rightarrow> (Inl e, w')
      | (Inr loginUrl, w') \<Rightarrow> (Inr (), w'\<lparr>assigned := assigned w' @ [loginUrl]\<rparr>))"

text \<open>
  The condition of line 88, \<open>!state || decode(decodeURIComponent(state)) !== getStateParam()\<close>:
  \<open>Inl\<close> where a decoder throws.
\<close>

definition state_param_invalid :: "'n platform \<Rightarrow> string option \<Rightarrow> window \<Rightarrow> error + bool" where
  "state_param_invalid P state w =
     (if \<not> truthy state then Inr True
      else (case decodeURIComponent P (the state) of
              None \<Rightarrow> Inl URIError
            | Some u \<Rightarrow>
                (case decode P u of
                   Inl e \<Rightarrow> Inl e
                 | Inr d \<Rightarrow> Inr (Some d \<noteq> getStateParam w))))"

text \<open>\<open>window.history.replaceState(null, title, pathname)\<close>: the query leaves the URL.\<close>

definition replaceState :: "window \<Rightarrow> window" where
  "replaceState w =
     w\<lparr>location_href := location_origin w @ location_pathname w, location_search := []\<rparr>"

definition AppleProvider_authenticate ::
  "'n platform \<Rightarrow> AppleProvider \<Rightarrow> window \<Rightarrow> (error + AuthMethod) \<times> AppleProvider \<times> window" where
  "AppleProvider_authenticate P this w =
     (if \<not> prefix (redirectUri this) (location_href w)
      then (Inl (RedirectUriMismatch (location_href w) (redirectUri this)), this, w)
      else
        (let ps = parseLoginParams P (location_search w)
         in if truthy (lp_error ps) then (Inl (ProviderError (the (lp_error ps))), this, w)
            else if \<not> truthy (lp_provider ps) \<or> lp_provider ps \<noteq> Some ''apple''
            then (Inl (ProviderMismatch (lp_provider ps)), this, w)
            else
              (case state_param_invalid P (lp_state ps) w of
                 Inl e \<Rightarrow> (Inl e, this, w)
               | Inr True \<Rightarrow> (Inl (InvalidStateParameter (lp_state ps)), this, w)
               | Inr False \<Rightarrow>
                   (let w' = replaceState w
                    in if \<not> truthy (lp_idToken ps) then (Inl MissingIdToken, this, w')
                       else (Inr \<lparr>authMethodType = AppleJwt,
                                  accessToken = the (lp_idToken ps)\<rparr>,
                             this\<lparr>priv_idToken := lp_idToken ps\<rparr>, w')))))"

definition AppleProvider_getAuthMethodId :: "'n platform \<Rightarrow> AppleProvider \<Rightarrow> error + string" where
  "AppleProvider_getAuthMethodId P this =
     (if \<not> truthy (priv_idToken this) then Inl IdTokenNotDefined
      else (case parseJWT P (the (priv_idToken this)) of
              Inl e \<Rightarrow> Inl e
            | Inr tokenPayload \<Rightarrow>
                (case getprop tokenPayload ''sub'' of
                   Inl e \<Rightarrow> Inl e
                 | Inr userId \<Rightarrow>
                     (case getprop tokenPayload ''aud'' of
                        Inl e \<Rightarrow> Inl e
                      | Inr audience \<Rightarrow>
                          (case ToString P userId of
                             Inl e \<Rightarrow> Inl e
                           | Inr subject_text \<Rightarrow>
                               (case ToString P audience of
                                  Inl e \<Rightarrow> Inl e
                                | Inr audience_text \<Rightarrow>
                                    Inr (hash_text P (subject_text @ '':'' @ audience_text))))))))"

section \<open>The wallet provider\<close>

text \<open>\<open>options.cache\<close> is read as \<open>undefined\<close>, \<open>null\<close> or a boolean.\<close>

datatype cache_option = CacheUndefined | CacheNull | CacheBool bool

record EthWalletAuthenticateOptions =
  opt_address :: "string option"
  opt_signMessage :: "(string \<Rightarrow> error + string) option"
  opt_chain :: "string option"
  opt_expiration :: "string option"
  opt_cache :: cache_option
  opt_expirationUnit :: "string option"
  opt_expirationLength :: "int option"

record EthWalletProvider =
  domain :: string
  origin :: string
  priv_authSig :: "AuthSig option"
    \<comment> \<open>the private field \<open>#authSig\<close>\<close>

definition EthWalletProvider_new ::
  "string option \<Rightarrow> string option \<Rightarrow> window \<Rightarrow> EthWalletProvider" where
  "EthWalletProvider_new domain_opt origin_opt w =
     \<lparr>domain = (if truthy domain_opt then the domain_opt else location_hostname w),
      origin = (if truthy origin_opt then the origin_opt else location_origin w),
      priv_authSig = None\<rparr>"

text \<open>
  Lines 56 to 60: a \<open>cache\<close> that is \<open>null\<close> is set to \<open>true\<close>, then \<open>options?.cache\<close> is
  tested.
\<close>

definition cache_enabled :: "EthWalletAuthenticateOptions option \<Rightarrow> bool" where
  "cache_enabled options =
     (case options of
        None \<Rightarrow> False
      | Some opts \<Rightarrow>
          (let cache = (if opt_cache opts = CacheNull then CacheBool True else opt_cache opts)
           in cache = CacheBool True))"

text \<open>The condition of line 83, \<open>address && signMessage\<close>.\<close>

definition address_and_signer :: "EthWalletAuthenticateOptions option \<Rightarrow> bool" where
  "address_and_signer options =
     (case options of
        None \<Rightarrow> False
      | Some opts \<Rightarrow> truthy (opt_address opts) \<and> opt_signMessage opts \<noteq> None)"

text \<open>The collaborator, with its call written to the log.\<close>

definition call_checkAndSignAuthMessage ::
  "'n platform \<Rightarrow> string \<Rightarrow> string option \<Rightarrow> window \<Rightarrow> (error + AuthSig option) \<times> window" where
  "call_checkAndSignAuthMessage P chain expiration w =
     (checkAndSignAuthMessage P chain expiration,
      w\<lparr>calls := calls w @ [CheckAndSign chain expiration]\<rparr>)"

text \<open>Lines 84 to 114: the message is built and signed with the function supplied.\<close>

definition sign_with ::
  "'n platform \<Rightarrow> EthWalletProvider \<Rightarrow> string \<Rightarrow> (string \<Rightarrow> error + string) \<Rightarrow> string \<Rightarrow>
   string option \<Rightarrow> window \<Rightarrow> (error + AuthSig option) \<times> window" where
  "sign_with P this addr signMessage chain expiration_opt w =
     (let chainId = (case LIT_CHAINS P chain of
                       None \<Rightarrow> 1
                     | Some c \<Rightarrow> if c \<noteq> 0 then c else 1);
          expiration = (if truthy expiration_opt then the expiration_opt
                        else toISOString P (now w + 1000 * 60 * 60 * 24))
      in case getAddress P addr of
           None \<Rightarrow> (Inl InvalidArgument, w)
         | Some checksummed \<Rightarrow>
             (case prepareMessage P
                     \<lparr>siwe_domain = domain this, siwe_uri = origin this,
                      siwe_address = checksummed, siwe_version = ''1'',
                      siwe_chainId = chainId, siwe_expirationTime = expiration\<rparr> of
                Inl e \<Rightarrow> (Inl e, w)
              | Inr toSign \<Rightarrow>
                  (let w' = w\<lparr>calls := calls w @ [SignMessage toSign]\<rparr>
                   in case signMessage toSign of
                        Inl e \<Rightarrow> (Inl e, w')
                      | Inr signature \<Rightarrow>
                          (Inr (Some \<lparr>sig = signature,
                                      derivedVia = ''web3.eth.personal.sign'',
                                      signedMessage = toSign,
                                      address = addr\<rparr>), w'))))"

definition AuthSig_json :: "AuthSig \<Rightarrow> 'n jsval" where
  "AuthSig_json a =
     JObj [(''sig'', JStr (sig a)), (''derivedVia'', JStr (derivedVia a)),
           (''signedMessage'', JStr (signedMessage a)), (''address'', JStr (address a))]"

definition EthWalletProvider_authenticate ::
  "'n platform \<Rightarrow> EthWalletProvider \<Rightarrow> EthWalletAuthenticateOptions option \<Rightarrow> window \<Rightarrow>
   (error + AuthMethod) \<times> EthWalletProvider \<times> window" where
  "EthWalletProvider_authenticate P this options w =
     (let chain = (case options of
                     None \<Rightarrow> ''ethereum''
                   | Some opts \<Rightarrow>
                       if truthy (opt_chain opts) then the (opt_chain opts) else ''ethereum'');
          (r, w') =
            (if cache_enabled options
             then (let opts = the options
                   in call_checkAndSignAuthMessage P chain
                        (if truthy (opt_expirationUnit opts)
                            \<and> opt_expirationLength opts \<noteq> None
                            \<and> opt_expirationLength opts \<noteq> Some 0
                         then Some (convertToISOString P (the (opt_expirationLength opts))
                                      (the (opt_expirationUnit opts)))
                         else None) w)
             else if address_and_signer options
             then (let opts = the options
                   in sign_with P this (the (opt_address opts)) (the (opt_signMessage opts))
                        chain (opt_expiration opts) w)
             else call_checkAndSignAuthMessage P chain None w)
      in case r of
           Inl e \<Rightarrow> (Inl e, this, w')
         | Inr None \<Rightarrow> (Inl AuthSigUndefined, this, w')
         | Inr (Some authSig) \<Rightarrow>
             (Inr \<lparr>authMethodType = EthWallet,
                   accessToken = JSON_stringify P (AuthSig_json authSig)\<rparr>,
              this\<lparr>priv_authSig := Some authSig\<rparr>, w'))"

definition EthWalletProvider_getAuthMethodId :: "EthWalletProvider \<Rightarrow> error + string" where
  "EthWalletProvider_getAuthMethodId this =
     (case priv_authSig this of
        None \<Rightarrow> Inl AuthSigNotDefined
      | Some authSig \<Rightarrow> Inr (address authSig))"

section \<open>The WebAuthn provider\<close>

record 'n WebAuthnProvider =
  rpcUrl :: string
  priv_attestationResponse :: "'n jsval"
    \<comment> \<open>the private field \<open>#attestationResponse\<close>, of type \<open>any | undefined\<close>\<close>

definition WebAuthnProvider_new :: "string \<Rightarrow> 'n WebAuthnProvider" where
  "WebAuthnProvider_new url = \<lparr>rpcUrl = url, priv_attestationResponse = JUndefined\<rparr>"

text \<open>
  Lines 142 to 147: \<open>userHandle\<close>, read through \<open>response?.userHandle\<close>, replaces the one
  of the copy once encoded, when it is truthy.
\<close>

definition normalize_userHandle ::
  "'n platform \<Rightarrow> 'n jsval \<Rightarrow> 'n jsval \<Rightarrow> error + 'n jsval" where
  "normalize_userHandle P authenticationResponse actual =
     (case getprop authenticationResponse ''response'' of
        Inl e \<Rightarrow> Inl e
      | Inr resp \<Rightarrow>
          (let userHandle = getprop_opt resp ''userHandle''
           in if \<not> truthy_val P userHandle then Inr actual
              else (case getprop actual ''response'' of
                      Inl e \<Rightarrow> Inl e
                    | Inr actual_resp \<Rightarrow>
                        (case base64url_encode P userHandle of
                           Inl e \<Rightarrow> Inl e
                         | Inr encoded \<Rightarrow>
                             (case setprop actual_resp ''userHandle'' (JStr encoded) of
                                Inl e \<Rightarrow> Inl e
                              | Inr actual_resp' \<Rightarrow> setprop actual ''response'' actual_resp')))))"

definition WebAuthnProvider_authenticate ::
  "'n platform \<Rightarrow> 'n WebAuthnProvider \<Rightarrow> window \<Rightarrow> (error + AuthMethod) \<times> 'n WebAuthnProvider" where
  "WebAuthnProvider_authenticate P this w =
     (case getLatestBlockHash P (rpcUrl this) of
        Inl e \<Rightarrow> (Inl e, this)
      | Inr blockHash \<Rightarrow>
          (case arrayify P blockHash of
             None \<Rightarrow> (Inl InvalidArgument, this)
           | Some blockHashBytes \<Rightarrow>
               (let rpId = getRPIdFromOrigin (location_origin w)
                in case startAuthentication P (base64url P blockHashBytes) 60000 ''required'' rpId of
                     Inl e \<Rightarrow> (Inl e, this)
                   | Inr authenticationResponse \<Rightarrow>
                       (case JSON_parse P (JSON_stringify P authenticationResponse) of
                          None \<Rightarrow> (Inl SyntaxError, this)
                        | Some copy \<Rightarrow>
                            (case normalize_userHandle P authenticationResponse copy of
                               Inl e \<Rightarrow> (Inl e, this)
                             | Inr actualAuthenticationResponse \<Rightarrow>
                                 (Inr \<lparr>authMethodType = WebAuthn,
                                       accessToken =
                                         JSON_stringify P actualAuthenticationResponse\<rparr>,
                                  this\<lparr>priv_attestationResponse :=
                                         actualAuthenticationResponse\<rparr>))))))"

definition WebAuthnProvider_getAuthMethodId ::
  "'n platform \<Rightarrow> 'n WebAuthnProvider \<Rightarrow> error + string" where
  "WebAuthnProvider_getAuthMethodId P this =
     (if \<not> truthy_val P (priv_attestationResponse this) then Inl AuthDataNotDefined
      else (case getprop (priv_attestationResponse this) ''rawId'' of
              Inl e \<Rightarrow> Inl e
            | Inr credentialRawId \<Rightarrow>
                (case ToString P credentialRawId of
                   Inl e \<Rightarrow> Inl e
                 | Inr shown \<Rightarrow> Inr (hash_text P (shown @ '':lit'')))))"

section \<open>The identifier of a WebAuthn credential, in the words of the specification\<close>

text \<open>The hash of the UTF-8 bytes of \<open>"<rawId>:lit"\<close>.\<close>

definition webauthn_id :: "'n platform \<Rightarrow> string \<Rightarrow> string" where
  "webauthn_id P rawId = keccak256 P (toUtf8Bytes P (rawId @ '':lit''))"

section \<open>Sample values\<close>

text \<open>
  A platform for the examples: each external function is given by its values at the
  inputs the examples use (the hashes are those of Keccak-256, the address pair is the
  first test vector of EIP-55), and answers with a failure or a default elsewhere.
\<close>

definition sample_keccak256 :: "nat list \<Rightarrow> string" where
  "sample_keccak256 bytes =
     (if bytes = map of_char ''undefined:lit''
      then ''0xfd4e444585dd9b8351282d4d2ca139a3782cc02d91ad0793cc09c1cefcdbac06''
      else if bytes = map of_char ''user-42:orgabc''
      then ''0x7a1d9bcf76e7f7ba5b5031e9eb8fd26aa97b6dac0225c34e4175ccac9e542de1''
      else if bytes = map of_char ''cred-1:lit''
      then ''0x2b2861c3e6ac15739ff9c9257f759e67ada8d072422e97f7f25780102191e3e6''
      else if bytes = map of_char ''cred-2:lit''
      then ''0x2cb26f3c7a4553205fd4fa0ecd7b301fc3646492560a1dc724d360171f0e3247''
      else ''0x'')"

definition sample_otp_body :: string where
  \<open>sample_otp_body = ''{"orgId":"OrgABC","extraData":"user-42|extra-context"}''\<close>

definition sample_json :: "(string \<times> nat jsval) list" where
  \<open>sample_json =
     [(''{}'', JObj []),
      (''{"rawId":"cred-1"}'', JObj [(''rawId'', JStr ''cred-1'')]),
      (''{"rawId":"cred-2"}'', JObj [(''rawId'', JStr ''cred-2'')]),
      (sample_otp_body,
       JObj [(''orgId'', JStr ''OrgABC''), (''extraData'', JStr ''user-42|extra-context'')])]\<close>

text \<open>The text of a string without escapes, and of an object whose values are such strings.\<close>

definition quoted :: "string \<Rightarrow> string" where
  "quoted s = CHR 0x22 # s @ [CHR 0x22]"

definition sample_stringify :: "nat jsval \<Rightarrow> string" where
  "sample_stringify v =
     (case v of
        JStr s \<Rightarrow> quoted s
      | JObj fs \<Rightarrow>
          ''{'' @ join '','' (map (\<lambda>(k, x). quoted k @ '':''
                                   @ (case x of JStr s \<Rightarrow> quoted s | _ \<Rightarrow> ''null'')) fs)
          @ ''}''
      | _ \<Rightarrow> ''null'')"

definition sample_query :: "(string \<times> (string \<times> string) list) list" where
  "sample_query =
     [(''?provider=apple&id_token=h.p.s&state=eHl6Nzg5'',
       [(''provider'', ''apple''), (''id_token'', ''h.p.s''), (''state'', ''eHl6Nzg5'')]),
      (''?provider=apple&id_token=h.p.s&state=YWJjMTIz'',
       [(''provider'', ''apple''), (''id_token'', ''h.p.s''), (''state'', ''YWJjMTIz'')]),
      (''?provider=apple&state=YWJjMTIz'',
       [(''provider'', ''apple''), (''state'', ''YWJjMTIz'')]),
      (''?provider=apple&id_token=h.p.s&state=!!!'',
       [(''provider'', ''apple''), (''id_token'', ''h.p.s''), (''state'', ''!!!'')]),
      (''?provider=apple&id_token=h.p.s&state=%25'',
       [(''provider'', ''apple''), (''id_token'', ''h.p.s''), (''state'', ''%'')])]"

definition sample_platform :: "nat platform" where
  "sample_platform =
     \<lparr>JSON_parse = map_of sample_json,
      JSON_stringify = sample_stringify,
      Number_toString = (\<lambda>n. ''0''),
      Number_falsy = (\<lambda>n. n = 0),
      btoa = map_of [(''abc123'', ''YWJjMTIz''), (''xyz789'', ''eHl6Nzg5'')],
      atob = map_of [(''YWJjMTIz'', ''abc123''), (''eHl6Nzg5'', ''xyz789'')],
      decodeURIComponent = (\<lambda>s. if CHR ''%'' \<in> set s then None else Some s),
      URLSearchParams = (\<lambda>s. case map_of sample_query s of None \<Rightarrow> [] | Some q \<Rightarrow> q),
      URLSearchParams_toString = (\<lambda>q. []),
      nanoid = (\<lambda>seed size. take size ''V1StGXR8_Z5jdHi6B-myT''),
      keccak256 = sample_keccak256,
      toUtf8Bytes = map of_char,
      getAddress =
        map_of [(''0x5aaeb6053f3e94c9b9a09f33669435e7ef1beaed'',
                 ''0x5aAeb6053F3E94C9b9A09f33669435E7Ef1BeAed''),
                (''0x5aAeb6053F3E94C9b9A09f33669435E7Ef1BeAed'',
                 ''0x5aAeb6053F3E94C9b9A09f33669435E7Ef1BeAed'')],
      decodeJwt = (\<lambda>t. None),
      parseJWT = (\<lambda>t. Inl InvalidTokenLength),
      Buffer_base64_ascii =
        (\<lambda>s. if s = ''eyJvcmdJZCI6Ik9yZ0FCQyIsImV4dHJhRGF0YSI6InVzZXItNDJ8ZXh0cmEtY29udGV4dCJ9''
             then sample_otp_body else []),
      fetchDiscordMe = (\<lambda>t. Inl (Rejected ''offline'')),
      LIT_CHAINS = map_of [(''ethereum'', 1), (''polygon'', 137)],
      toISOString = (\<lambda>ms. ''1970-01-02T00:00:00.000Z''),
      convertToISOString = (\<lambda>n unit. ''1970-01-02T00:00:00.000Z''),
      prepareMessage =
        (\<lambda>f. Inr (siwe_domain f @ '' wants you to sign in with your Ethereum account: ''
                   @ siwe_address f)),
      checkAndSignAuthMessage =
        (\<lambda>chain expiration.
           Inr (Some \<lparr>sig = ''0xcached'', derivedVia = ''web3.eth.personal.sign'',
                      signedMessage = ''cached message'',
                      address = ''0x5aAeb6053F3E94C9b9A09f33669435E7Ef1BeAed''\<rparr>)),
      getLatestBlockHash =
        (\<lambda>url. if url = ''https://rpc.example'' then Inr ''0x00''
              else Inl (Rejected ''network'')),
      arrayify = (\<lambda>h. if h = ''0x00'' then Some [0] else None),
      base64url = (\<lambda>bytes. if bytes = [0] then ''AA'' else []),
      base64url_encode = (\<lambda>v. Inl TypeError),
      startAuthentication =
        (\<lambda>challenge timeout userVerification rpId. Inr (JObj [(''rawId'', JStr ''cred-1'')]))\<rparr>"

definition sample_window :: window where
  "sample_window =
     \<lparr>location_href = ''https://app.example/cb?provider=apple&id_token=h.p.s&state=eHl6Nzg5'',
      location_search = ''?provider=apple&id_token=h.p.s&state=eHl6Nzg5'',
      location_pathname = ''/cb'',
      location_origin = ''https://app.example'',
      location_hostname = ''app.example'',
      sessionStorage = [(''lit-state-param'', ''abc123'')],
      assigned = [],
      now = 0,
      rng = 0,
      calls = []\<rparr>"

definition sample_apple :: AppleProvider where
  "sample_apple = AppleProvider_new (Some ''https://app.example/cb'') sample_window"

definition sample_sign :: "string \<Rightarrow> error + string" where
  "sample_sign message = Inr ''0xsigned''"

definition sample_options :: EthWalletAuthenticateOptions where
  "sample_options =
     \<lparr>opt_address = Some ''0x5aaeb6053f3e94c9b9a09f33669435e7ef1beaed'',
      opt_signMessage = Some sample_sign,
      opt_chain = None,
      opt_expiration = None,
      opt_cache = CacheUndefined,
      opt_expirationUnit = None,
      opt_expirationLength = None\<rparr>"

definition sample_wallet :: EthWalletProvider where
  "sample_wallet =
     EthWalletProvider_new (Some ''app.example'') (Some ''https://app.example'') sample_window"

definition sample_evil :: window where
  "sample_evil =
     sample_window
       \<lparr>location_href := ''https://evil.example/cb?provider=apple&id_token=h.p.s&state=YWJjMTIz'',
        location_search := ''?provider=apple&id_token=h.p.s&state=YWJjMTIz'',
        location_origin := ''https://evil.example'',
        location_hostname := ''evil.example''\<rparr>"

definition sample_return :: window where
  "sample_return =
     sample_window
       \<lparr>location_href := ''https://app.example/cb?provider=apple&id_token=h.p.s&state=YWJjMTIz'',
        location_search := ''?provider=apple&id_token=h.p.s&state=YWJjMTIz''\<rparr>"

definition sample_garbled :: window where
  "sample_garbled =
     sample_window
       \<lparr>location_href := ''https://app.example/cb?provider=apple&id_token=h.p.s&state=!!!'',
        location_search := ''?provider=apple&id_token=h.p.s&state=!!!''\<rparr>"

definition sample_percent :: window where
  "sample_percent =
     sample_window
       \<lparr>location_href := ''https://app.example/cb?provider=apple&id_token=h.p.s&state=%25'',
        location_search := ''?provider=apple&id_token=h.p.s&state=%25''\<rparr>"

section \<open>Properties\<close>

subsection \<open>Auxiliary facts\<close>

lemma str_split_ne: "str_split c s \<noteq> []"
  by (induction s) (auto split: list.splits)

lemma hd_str_split: "hd (str_split c s) = takeWhile (\<lambda>x. x \<noteq> c) s"
  by (induction s) (auto split: list.splits simp: str_split_ne)

lemma ToString_own_toString:
  "map_of fs ''toString'' = Some v \<Longrightarrow> ToString P (JObj fs) = Inl TypeError"
  "map_of fs ''toString'' = Some v \<Longrightarrow> ToString P (JArr [JStr s, JObj fs]) = Inl TypeError"
  "map_of fs ''toString'' = None \<Longrightarrow> ToString P (JArr [JStr s, JNull, JObj fs])
     = Inr (s @ '',,[object Object]'')"
  by simp_all

lemma sign_with_result:
  assumes "sign_with P this a f chain e w = (r, w')"
  shows "(\<exists>err. r = Inl err \<and> (w' = w \<or> (\<exists>m. w' = w\<lparr>calls := calls w @ [SignMessage m]\<rparr>)))
       \<or> (\<exists>c n t m s. getAddress P a = Some c
             \<and> prepareMessage P \<lparr>siwe_domain = domain this, siwe_uri = origin this,
                    siwe_address = c, siwe_version = ''1'', siwe_chainId = n,
                    siwe_expirationTime = t\<rparr> = Inr m
             \<and> f m = Inr s
             \<and> r = Inr (Some \<lparr>sig = s, derivedVia = ''web3.eth.personal.sign'',
                              signedMessage = m, address = a\<rparr>)
             \<and> w' = w\<lparr>calls := calls w @ [SignMessage m]\<rparr>)"
proof (cases "getAddress P a")
  case None
  with assms show ?thesis by (auto simp: sign_with_def Let_def)
next
  case (Some c)
  define n where "n = (case LIT_CHAINS P chain of None \<Rightarrow> 1 | Some c \<Rightarrow> if c \<noteq> 0 then c else (1::int))"
  define t where "t = (if truthy e then the e else toISOString P (now w + 1000 * 60 * 60 * 24))"
  define fs where "fs = \<lparr>siwe_domain = domain this, siwe_uri = origin this,
                    siwe_address = c, siwe_version = ''1'', siwe_chainId = n,
                    siwe_expirationTime = t\<rparr>"
  have sw: "sign_with P this a f chain e w =
     (case prepareMessage P fs of
                Inl e \<Rightarrow> (Inl e, w)
              | Inr toSign \<Rightarrow>
                  (let w' = w\<lparr>calls := calls w @ [SignMessage toSign]\<rparr>
                   in case f toSign of
                        Inl e \<Rightarrow> (Inl e, w')
                      | Inr signature \<Rightarrow>
                          (Inr (Some \<lparr>sig = signature,
                                      derivedVia = ''web3.eth.personal.sign'',
                                      signedMessage = toSign,
                                      address = a\<rparr>), w')))"
    by (simp add: sign_with_def Let_def Some n_def t_def fs_def)
  show ?thesis
  proof (cases "prepareMessage P fs")
    case (Inl err)
    with sw assms show ?thesis by auto
  next
    case (Inr m)
    show ?thesis
    proof (cases "f m")
      case (Inl err)
      with sw Inr assms show ?thesis by (auto simp: Let_def)
    next
      case fm: (Inr s)
      from sw Inr fm assms have "r = Inr (Some \<lparr>sig = s, derivedVia = ''web3.eth.personal.sign'',
                              signedMessage = m, address = a\<rparr>)"
        and "w' = w\<lparr>calls := calls w @ [SignMessage m]\<rparr>"
        by (auto simp: Let_def)
      with Some Inr fm show ?thesis unfolding fs_def by blast
    qed
  qed
qed


subsection \<open>C1: the dispatcher and the Apple type\<close>

text \<open>
  C1 says that the standalone dispatcher has a rule for each of \<open>EthWallet\<close>,
  \<open>WebAuthn\<close>, \<open>AppleJwt\<close>, \<open>GoogleJwt\<close>, \<open>Discord\<close> and \<open>OTP\<close>, never fails with the
  unsupported-type error on them, and fails with it on any other type. The \<open>switch\<close>
  has no case for \<open>AppleJwt\<close>, the type of the methods the Apple provider emits: on
  every token of that type the dispatcher takes the default branch and fails with the
  invalid-type error, as it does on a type it does not know. The five other types go to
  their rules.
\<close>

theorem apple_jwt_dispatch_fails:
  "getAuthMethodId P \<lparr>authMethodType = AppleJwt, accessToken = tok\<rparr>
     = Inl (InvalidAuthMethodType AppleJwt)
   \<and> getAuthMethodId P \<lparr>authMethodType = OtherAuthMethodType n, accessToken = tok\<rparr>
     = Inl (InvalidAuthMethodType (OtherAuthMethodType n))
   \<and> getAuthMethodId P \<lparr>authMethodType = GoogleJwt, accessToken = tok\<rparr>
     = getGoogleAuthMethodId P \<lparr>authMethodType = GoogleJwt, accessToken = tok\<rparr>
   \<and> getAuthMethodId P \<lparr>authMethodType = Discord, accessToken = tok\<rparr>
     = getDiscordAuthMethodId P \<lparr>authMethodType = Discord, accessToken = tok\<rparr>
   \<and> getAuthMethodId P \<lparr>authMethodType = EthWallet, accessToken = tok\<rparr>
     = getEthWalletAuthMethodId P \<lparr>authMethodType = EthWallet, accessToken = tok\<rparr>
   \<and> getAuthMethodId P \<lparr>authMethodType = WebAuthn, accessToken = tok\<rparr>
     = getWebAuthnAuthMethodId P \<lparr>authMethodType = WebAuthn, accessToken = tok\<rparr>
   \<and> getAuthMethodId P \<lparr>authMethodType = OTP, accessToken = tok\<rparr>
     = getOTPMethodId P \<lparr>authMethodType = OTP, accessToken = tok\<rparr>"
  by (simp add: getAuthMethodId_def)

subsection \<open>C2: the address of the packaged signature\<close>

text \<open>
  C2, as amended: after a successful \<open>authenticate\<close> with caching not enabled, a
  non-empty address and a signing function, the \<open>address\<close> field of the stored signature,
  and so the result of \<open>getAuthMethodId\<close>, is the address as it was passed in; its EIP-55
  form is the address the signed message is built from.
\<close>

theorem authSig_address_verbatim:
  assumes nc: "\<not> cache_enabled (Some opts)" and a: "opt_address opts = Some a" "a \<noteq> []"
    and f: "opt_signMessage opts = Some f"
    and ok: "EthWalletProvider_authenticate P this (Some opts) w = (Inr am, this', w')"
  shows "\<exists>sg c n t. priv_authSig this' = Some sg \<and> address sg = a
           \<and> EthWalletProvider_getAuthMethodId this' = Inr a
           \<and> getAddress P a = Some c
           \<and> prepareMessage P \<lparr>siwe_domain = domain this, siwe_uri = origin this,
                    siwe_address = c, siwe_version = ''1'', siwe_chainId = n,
                    siwe_expirationTime = t\<rparr> = Inr (signedMessage sg)"
proof -
  define chain where "chain = (if truthy (opt_chain opts) then the (opt_chain opts) else ''ethereum'')"
  obtain r w1 where sw: "sign_with P this a f chain (opt_expiration opts) w = (r, w1)"
    by (cases "sign_with P this a f chain (opt_expiration opts) w") blast
  have auth: "EthWalletProvider_authenticate P this (Some opts) w =
      (case r of
           Inl e \<Rightarrow> (Inl e, this, w1)
         | Inr None \<Rightarrow> (Inl AuthSigUndefined, this, w1)
         | Inr (Some authSig) \<Rightarrow>
             (Inr \<lparr>authMethodType = EthWallet,
                   accessToken = JSON_stringify P (AuthSig_json authSig)\<rparr>,
              this\<lparr>priv_authSig := Some authSig\<rparr>, w1))"
    using nc a f sw
    by (simp add: EthWalletProvider_authenticate_def Let_def truthy_def chain_def address_and_signer_def)
  from sign_with_result[OF sw] show ?thesis
  proof
    assume "\<exists>err. r = Inl err \<and> (w1 = w \<or> (\<exists>m. w1 = w\<lparr>calls := calls w @ [SignMessage m]\<rparr>))"
    with auth ok show ?thesis by auto
  next
    assume "\<exists>c n t m s. getAddress P a = Some c
             \<and> prepareMessage P \<lparr>siwe_domain = domain this, siwe_uri = origin this,
                    siwe_address = c, siwe_version = ''1'', siwe_chainId = n,
                    siwe_expirationTime = t\<rparr> = Inr m
             \<and> f m = Inr s
             \<and> r = Inr (Some \<lparr>sig = s, derivedVia = ''web3.eth.personal.sign'',
                              signedMessage = m, address = a\<rparr>)
             \<and> w1 = w\<lparr>calls := calls w @ [SignMessage m]\<rparr>"
    then obtain c n t m s where c: "getAddress P a = Some c"
      and m: "prepareMessage P \<lparr>siwe_domain = domain this, siwe_uri = origin this,
                    siwe_address = c, siwe_version = ''1'', siwe_chainId = n,
                    siwe_expirationTime = t\<rparr> = Inr m"
      and r: "r = Inr (Some \<lparr>sig = s, derivedVia = ''web3.eth.personal.sign'',
                              signedMessage = m, address = a\<rparr>)"
      by blast
    from auth ok r have "this' = this\<lparr>priv_authSig := Some \<lparr>sig = s, derivedVia = ''web3.eth.personal.sign'',
                              signedMessage = m, address = a\<rparr>\<rparr>"
      by simp
    with c m show ?thesis
      by (auto simp: EthWalletProvider_getAuthMethodId_def)
  qed
qed

theorem authSig_address_verbatim_witness:
  "priv_authSig (fst (snd (EthWalletProvider_authenticate sample_platform sample_wallet
                             (Some sample_options) sample_window)))
     = Some \<lparr>sig = ''0xsigned'', derivedVia = ''web3.eth.personal.sign'',
             signedMessage = ''app.example wants you to sign in with your Ethereum account: 0x5aAeb6053F3E94C9b9A09f33669435E7Ef1BeAed'',
             address = ''0x5aaeb6053f3e94c9b9a09f33669435e7ef1beaed''\<rparr>"
proof -
  have nc: "\<not> cache_enabled (Some sample_options)"
    by (simp add: cache_enabled_def sample_options_def)
  have a: "opt_address sample_options = Some ''0x5aaeb6053f3e94c9b9a09f33669435e7ef1beaed''"
    and f: "opt_signMessage sample_options = Some sample_sign"
    by (simp_all add: sample_options_def)
  have ne: "''0x5aaeb6053f3e94c9b9a09f33669435e7ef1beaed'' \<noteq> []" by simp
  define R where "R = EthWalletProvider_authenticate sample_platform sample_wallet
                       (Some sample_options) sample_window"
  have "\<exists>am. fst R = Inr am"
    by (simp add: R_def EthWalletProvider_authenticate_def sign_with_def truthy_def Let_def address_and_signer_def
                  cache_enabled_def sample_platform_def sample_sign_def sample_options_def)
  then obtain am where "R = (Inr am, fst (snd R), snd (snd R))"
    by (cases R) auto
  then have ok: "EthWalletProvider_authenticate sample_platform sample_wallet
                   (Some sample_options) sample_window = (Inr am, fst (snd R), snd (snd R))"
    by (simp add: R_def)
  from authSig_address_verbatim [OF nc a ne f ok]
  show ?thesis
    by (simp add: R_def EthWalletProvider_authenticate_def sign_with_def truthy_def Let_def address_and_signer_def
                  cache_enabled_def sample_platform_def sample_sign_def sample_options_def
                  sample_wallet_def EthWalletProvider_new_def)
qed

text \<open>
  The claim as it stands asks for the EIP-55 form in the \<open>address\<close> field. With the
  all-lowercase spelling of the first test vector of EIP-55 the field and the identifier
  keep the lowercase spelling, which is not the checksummed one.
\<close>

theorem authSig_address_checksum_counterexample:
  "opt_address sample_options = Some ''0x5aaeb6053f3e94c9b9a09f33669435e7ef1beaed''
   \<and> opt_signMessage sample_options = Some sample_sign
   \<and> map_option address
        (priv_authSig (fst (snd (EthWalletProvider_authenticate sample_platform sample_wallet
                                   (Some sample_options) sample_window))))
       = Some ''0x5aaeb6053f3e94c9b9a09f33669435e7ef1beaed''
   \<and> EthWalletProvider_getAuthMethodId
        (fst (snd (EthWalletProvider_authenticate sample_platform sample_wallet
                     (Some sample_options) sample_window)))
       = Inr ''0x5aaeb6053f3e94c9b9a09f33669435e7ef1beaed''
   \<and> getAddress sample_platform ''0x5aaeb6053f3e94c9b9a09f33669435e7ef1beaed''
       = Some ''0x5aAeb6053F3E94C9b9A09f33669435E7Ef1BeAed''
   \<and> ''0x5aaeb6053f3e94c9b9a09f33669435e7ef1beaed''
       \<noteq> ''0x5aAeb6053F3E94C9b9A09f33669435E7Ef1BeAed''"
  by (simp add: EthWalletProvider_authenticate_def sign_with_def truthy_def Let_def address_and_signer_def
                cache_enabled_def EthWalletProvider_getAuthMethodId_def
                sample_platform_def sample_sign_def sample_options_def sample_wallet_def
                EthWalletProvider_new_def)

subsection \<open>C3: signing in with Apple\<close>

text \<open>
  C3 says that \<open>signIn\<close> of the Apple provider draws a state token, stores it, puts it
  into the login URL and navigates to the gateway. \<open>prepareLoginUrl\<close> asks
  \<open>getLoginRoute\<close> for the route of \<open>apple\<close> first, and that function knows \<open>google\<close>
  and \<open>discord\<close> only: every call fails with the missing-route error, and the browser is
  left as it was (nothing drawn, nothing stored, no navigation).
\<close>

theorem apple_signIn_fails:
  "AppleProvider_signIn P this w = (Inl (NoLoginRoute ''apple''), w)"
  by (simp add: AppleProvider_signIn_def prepareLoginUrl_def getLoginRoute_def)

text \<open>
  For comparison, the same function with the provider \<open>google\<close>: the token is drawn and
  stored under the key, and its base64 text closes the URL of the gateway.
\<close>

lemma prepareLoginUrl_google:
  assumes "btoa P (nanoid P (rng w) 15) = Some st"
  shows "prepareLoginUrl P ''google'' redirect w
           = (Inr (''https://login.litgateway.com/auth/google?''
                   @ URLSearchParams_toString P [(''app_redirect'', redirect)]
                   @ ''&state='' @ st),
              w\<lparr>sessionStorage :=
                   AList.update ''lit-state-param'' (nanoid P (rng w) 15) (sessionStorage w),
                 rng := Suc (rng w)\<rparr>)"
  using assms
  by (simp add: prepareLoginUrl_def getLoginRoute_def setStateParam_def encode_def
                createQueryParams_def STATE_PARAM_KEY_def Let_def)

subsection \<open>C4: the state parameter against the stored token\<close>

text \<open>
  C4, as amended: in the redirect callback, once the checks of the redirect URI, of the
  \<open>error\<close> parameter and of the provider have passed, \<open>authenticate\<close> fails with the
  invalid-state error, whatever the ID token and changing nothing, whenever the \<open>state\<close>
  parameter is absent or empty, or decodes (\<open>decodeURIComponent\<close>, then base64) to a text
  other than the token in session storage, also when none is stored. When the parameter
  does not decode, it fails with the exception of the decoder instead: a URIError from
  \<open>decodeURIComponent\<close>, an InvalidCharacterError from \<open>atob\<close>. In each of these cases
  \<open>authenticate\<close> fails, whatever the other parameters, and an \<open>AuthMethod\<close> comes out
  only when the state decodes to exactly the stored token.
\<close>

theorem csrf_state_check:
  assumes ps: "ps = parseLoginParams P (location_search w)"
    and passed: "passed = (prefix (redirectUri this) (location_href w) \<and> \<not> truthy (lp_error ps)
                            \<and> lp_provider ps = Some ''apple'')"
  shows "((\<not> truthy (lp_state ps)
            \<or> (\<exists>u d. decodeURIComponent P (the (lp_state ps)) = Some u \<and> atob P u = Some d
                     \<and> getStateParam w \<noteq> Some d))
          \<longrightarrow> (\<exists>e. fst (AppleProvider_authenticate P this w) = Inl e)
            \<and> (passed
                \<longrightarrow> AppleProvider_authenticate P this w
                      = (Inl (InvalidStateParameter (lp_state ps)), this, w)))
       \<and> (truthy (lp_state ps) \<and> decodeURIComponent P (the (lp_state ps)) = None
          \<longrightarrow> (\<exists>e. fst (AppleProvider_authenticate P this w) = Inl e)
            \<and> (passed \<longrightarrow> AppleProvider_authenticate P this w = (Inl URIError, this, w)))
       \<and> (truthy (lp_state ps)
            \<and> (\<exists>u. decodeURIComponent P (the (lp_state ps)) = Some u \<and> atob P u = None)
          \<longrightarrow> (\<exists>e. fst (AppleProvider_authenticate P this w) = Inl e)
            \<and> (passed
                \<longrightarrow> AppleProvider_authenticate P this w = (Inl InvalidCharacterError, this, w)))
       \<and> (\<forall>am. fst (AppleProvider_authenticate P this w) = Inr am
            \<longrightarrow> (\<exists>s u d. lp_state ps = Some s \<and> decodeURIComponent P s = Some u
                         \<and> atob P u = Some d \<and> getStateParam w = Some d))"
proof -
  have mismatch: "(\<exists>e. fst (AppleProvider_authenticate P this w) = Inl e)
            \<and> (passed
                \<longrightarrow> AppleProvider_authenticate P this w
                      = (Inl (InvalidStateParameter (lp_state ps)), this, w))"
    if "\<not> truthy (lp_state ps)
            \<or> (\<exists>u d. decodeURIComponent P (the (lp_state ps)) = Some u \<and> atob P u = Some d
                     \<and> getStateParam w \<noteq> Some d)"
    using that unfolding ps passed
    by (auto simp: AppleProvider_authenticate_def state_param_invalid_def decode_def Let_def
                   truthy_def
             split: option.splits sum.splits if_splits bool.splits)
  have uri: "(\<exists>e. fst (AppleProvider_authenticate P this w) = Inl e)
            \<and> (passed \<longrightarrow> AppleProvider_authenticate P this w = (Inl URIError, this, w))"
    if "truthy (lp_state ps) \<and> decodeURIComponent P (the (lp_state ps)) = None"
    using that unfolding ps passed
    by (auto simp: AppleProvider_authenticate_def state_param_invalid_def decode_def Let_def
                   truthy_def
             split: option.splits sum.splits if_splits bool.splits)
  have b64: "(\<exists>e. fst (AppleProvider_authenticate P this w) = Inl e)
            \<and> (passed
                \<longrightarrow> AppleProvider_authenticate P this w = (Inl InvalidCharacterError, this, w))"
    if "truthy (lp_state ps)
            \<and> (\<exists>u. decodeURIComponent P (the (lp_state ps)) = Some u \<and> atob P u = None)"
    using that unfolding ps passed
    by (auto simp: AppleProvider_authenticate_def state_param_invalid_def decode_def Let_def
                   truthy_def
             split: option.splits sum.splits if_splits bool.splits)
  have only: "\<exists>s u d. lp_state ps = Some s \<and> decodeURIComponent P s = Some u
                         \<and> atob P u = Some d \<and> getStateParam w = Some d"
    if "fst (AppleProvider_authenticate P this w) = Inr am" for am
    using that unfolding ps
    by (auto simp: AppleProvider_authenticate_def state_param_invalid_def decode_def Let_def
                   truthy_def
             split: option.splits sum.splits if_splits bool.splits)
  from mismatch uri b64 only show ?thesis by blast
qed

theorem csrf_state_check_witness:
  "lp_state (parseLoginParams sample_platform (location_search sample_window)) = Some ''eHl6Nzg5''
   \<and> decodeURIComponent sample_platform ''eHl6Nzg5'' = Some ''eHl6Nzg5''
   \<and> atob sample_platform ''eHl6Nzg5'' = Some ''xyz789''
   \<and> getStateParam sample_window = Some ''abc123''
   \<and> AppleProvider_authenticate sample_platform sample_apple sample_window
       = (Inl (InvalidStateParameter (Some ''eHl6Nzg5'')), sample_apple, sample_window)
   \<and> lp_state (parseLoginParams sample_platform (location_search sample_percent)) = Some ''%''
   \<and> decodeURIComponent sample_platform ''%'' = None
   \<and> AppleProvider_authenticate sample_platform sample_apple sample_percent
       = (Inl URIError, sample_apple, sample_percent)
   \<and> lp_state (parseLoginParams sample_platform (location_search sample_garbled)) = Some ''!!!''
   \<and> decodeURIComponent sample_platform ''!!!'' = Some ''!!!''
   \<and> atob sample_platform ''!!!'' = None
   \<and> AppleProvider_authenticate sample_platform sample_apple sample_garbled
       = (Inl InvalidCharacterError, sample_apple, sample_garbled)
   \<and> fst (AppleProvider_authenticate sample_platform sample_apple sample_return)
       = Inr \<lparr>authMethodType = AppleJwt, accessToken = ''h.p.s''\<rparr>
   \<and> lp_state (parseLoginParams sample_platform (location_search sample_return)) = Some ''YWJjMTIz''
   \<and> atob sample_platform ''YWJjMTIz'' = Some ''abc123''
   \<and> getStateParam sample_return = Some ''abc123''"
proof -
  have params:
    "parseLoginParams sample_platform (location_search sample_window)
       = \<lparr>lp_provider = Some ''apple'', lp_accessToken = None, lp_idToken = Some ''h.p.s'',
          lp_state = Some ''eHl6Nzg5'', lp_error = None\<rparr>"
    "parseLoginParams sample_platform (location_search sample_percent)
       = \<lparr>lp_provider = Some ''apple'', lp_accessToken = None, lp_idToken = Some ''h.p.s'',
          lp_state = Some ''%'', lp_error = None\<rparr>"
    "parseLoginParams sample_platform (location_search sample_garbled)
       = \<lparr>lp_provider = Some ''apple'', lp_accessToken = None, lp_idToken = Some ''h.p.s'',
          lp_state = Some ''!!!'', lp_error = None\<rparr>"
    "parseLoginParams sample_platform (location_search sample_return)
       = \<lparr>lp_provider = Some ''apple'', lp_accessToken = None, lp_idToken = Some ''h.p.s'',
          lp_state = Some ''YWJjMTIz'', lp_error = None\<rparr>"
    by (simp_all add: parseLoginParams_def sample_platform_def sample_window_def
                      sample_percent_def sample_garbled_def sample_return_def sample_query_def)
  have dc: "decodeURIComponent sample_platform ''eHl6Nzg5'' = Some ''eHl6Nzg5''"
    "decodeURIComponent sample_platform ''%'' = None"
    "decodeURIComponent sample_platform ''!!!'' = Some ''!!!''"
    and ab: "atob sample_platform ''eHl6Nzg5'' = Some ''xyz789''"
    "atob sample_platform ''!!!'' = None"
    "atob sample_platform ''YWJjMTIz'' = Some ''abc123''"
    by (simp_all add: sample_platform_def)
  have tk: "getStateParam sample_window = Some ''abc123''"
    "getStateParam sample_return = Some ''abc123''"
    by (simp_all add: getStateParam_def sample_window_def sample_return_def STATE_PARAM_KEY_def)
  have px: "prefix (redirectUri sample_apple) (location_href sample_window)"
    "prefix (redirectUri sample_apple) (location_href sample_percent)"
    "prefix (redirectUri sample_apple) (location_href sample_garbled)"
    by (simp_all add: sample_apple_def sample_window_def sample_percent_def sample_garbled_def
                      AppleProvider_new_def truthy_def)
  have ok: "fst (AppleProvider_authenticate sample_platform sample_apple sample_return)
              = Inr \<lparr>authMethodType = AppleJwt, accessToken = ''h.p.s''\<rparr>"
    by (simp add: AppleProvider_authenticate_def state_param_invalid_def decode_def
                  parseLoginParams_def getStateParam_def STATE_PARAM_KEY_def truthy_def Let_def
                  replaceState_def sample_platform_def sample_query_def sample_apple_def
                  AppleProvider_new_def sample_return_def sample_window_def)
  from csrf_state_check [OF refl refl, of sample_platform sample_window sample_apple]
       csrf_state_check [OF refl refl, of sample_platform sample_percent sample_apple]
       csrf_state_check [OF refl refl, of sample_platform sample_garbled sample_apple]
       csrf_state_check [OF refl refl, of sample_platform sample_return sample_apple]
       params dc ab tk px ok
  show ?thesis by (simp add: truthy_def)
qed

text \<open>
  The claim as it stands has the invalid-state error for every state that is not the
  stored token. With the stored token \<open>abc123\<close> and everything else valid, the state
  \<open>!!!\<close>, which is no base64 text, ends in the InvalidCharacterError of \<open>atob\<close>, and the
  state \<open>%\<close> in the URIError of \<open>decodeURIComponent\<close>.
\<close>

theorem csrf_state_check_counterexample:
  "prefix (redirectUri sample_apple) (location_href sample_garbled)
   \<and> parseLoginParams sample_platform (location_search sample_garbled)
       = \<lparr>lp_provider = Some ''apple'', lp_accessToken = None, lp_idToken = Some ''h.p.s'',
          lp_state = Some ''!!!'', lp_error = None\<rparr>
   \<and> getStateParam sample_garbled = Some ''abc123''
   \<and> decodeURIComponent sample_platform ''!!!'' = Some ''!!!''
   \<and> atob sample_platform ''!!!'' = None
   \<and> AppleProvider_authenticate sample_platform sample_apple sample_garbled
       = (Inl InvalidCharacterError, sample_apple, sample_garbled)
   \<and> InvalidCharacterError \<noteq> InvalidStateParameter (Some ''!!!'')
   \<and> parseLoginParams sample_platform (location_search sample_percent)
       = \<lparr>lp_provider = Some ''apple'', lp_accessToken = None, lp_idToken = Some ''h.p.s'',
          lp_state = Some ''%'', lp_error = None\<rparr>
   \<and> decodeURIComponent sample_platform ''%'' = None
   \<and> AppleProvider_authenticate sample_platform sample_apple sample_percent
       = (Inl URIError, sample_apple, sample_percent)
   \<and> URIError \<noteq> InvalidStateParameter (Some ''%'')"
  by (simp add: AppleProvider_authenticate_def state_param_invalid_def decode_def
                parseLoginParams_def getStateParam_def STATE_PARAM_KEY_def truthy_def Let_def
                sample_platform_def sample_query_def sample_apple_def AppleProvider_new_def
                sample_garbled_def sample_percent_def sample_window_def)

subsection \<open>C5: the redirect URI is checked first\<close>

text \<open>
  C5: when the current URL does not start with the configured redirect URI,
  \<open>authenticate\<close> of the Apple provider fails with the redirect-mismatch error, the
  instance and the browser unchanged. No parser, decoder, query string or stored token has
  a say in it: the outcome is the same under any other platform, query and storage.
\<close>

theorem redirect_mismatch_first:
  assumes "\<not> prefix (redirectUri this) (location_href w)"
  shows "AppleProvider_authenticate P this w
           = (Inl (RedirectUriMismatch (location_href w) (redirectUri this)), this, w)
       \<and> fst (AppleProvider_authenticate P' this (w\<lparr>location_search := q, sessionStorage := st\<rparr>))
           = fst (AppleProvider_authenticate P this w)"
  using assms by (simp add: AppleProvider_authenticate_def)

theorem redirect_mismatch_first_witness:
  "\<not> prefix (redirectUri sample_apple) (location_href sample_evil)
   \<and> AppleProvider_authenticate sample_platform sample_apple sample_evil
       = (Inl (RedirectUriMismatch
                 ''https://evil.example/cb?provider=apple&id_token=h.p.s&state=YWJjMTIz''
                 ''https://app.example/cb''), sample_apple, sample_evil)"
proof -
  have h: "\<not> prefix (redirectUri sample_apple) (location_href sample_evil)"
    by (simp add: sample_apple_def sample_evil_def sample_window_def AppleProvider_new_def
                  truthy_def)
  from redirect_mismatch_first [OF h, of sample_platform sample_platform "[]" "[]"] h
  show ?thesis
    by (simp add: sample_apple_def sample_evil_def sample_window_def AppleProvider_new_def
                  truthy_def)
qed

subsection \<open>C6: when the collaborator is consulted\<close>




subsection \<open>C7: malformed access tokens\<close>

text \<open>
  C7, as amended: a token that does not parse makes its rule fail with an error of its
  own kind: the OTP rule with the invalid-length error on a JWT of other than exactly
  three segments between dots, the OTP, wallet and WebAuthn rules with a SyntaxError on
  invalid JSON, the Google rule with the error of the JWT library, the Discord rule with
  its fetch error when the profile request is refused. A missing claim is not looked for:
  the wallet rule then returns \<open>undefined\<close>, the WebAuthn and Google rules hash the text
  \<open>undefined\<close> in its place, and the OTP rule fails with a TypeError.
\<close>

theorem malformed_token_outcomes:
  "(length (str_split CHR ''.'' tok) \<noteq> 3
      \<longrightarrow> getAuthMethodId P \<lparr>authMethodType = OTP, accessToken = tok\<rparr> = Inl InvalidTokenLength)
   \<and> (length (str_split CHR ''.'' tok) = 3
        \<and> JSON_parse P (Buffer_base64_ascii P (str_split CHR ''.'' tok ! 1)) = None
      \<longrightarrow> getAuthMethodId P \<lparr>authMethodType = OTP, accessToken = tok\<rparr> = Inl SyntaxError)
   \<and> (JSON_parse P tok = None
      \<longrightarrow> getAuthMethodId P \<lparr>authMethodType = EthWallet, accessToken = tok\<rparr> = Inl SyntaxError
        \<and> getAuthMethodId P \<lparr>authMethodType = WebAuthn, accessToken = tok\<rparr> = Inl SyntaxError)
   \<and> (decodeJwt P tok = None
      \<longrightarrow> getAuthMethodId P \<lparr>authMethodType = GoogleJwt, accessToken = tok\<rparr> = Inl JWTInvalid)
   \<and> (fetchDiscordMe P tok = Inr (False, b)
      \<longrightarrow> getAuthMethodId P \<lparr>authMethodType = Discord, accessToken = tok\<rparr>
          = Inl UnableToFetchDiscordUserInfo)
   \<and> (JSON_parse P tok = Some (JObj fs) \<and> map_of fs ''address'' = None
      \<longrightarrow> getAuthMethodId P \<lparr>authMethodType = EthWallet, accessToken = tok\<rparr> = Inr JUndefined)
   \<and> (JSON_parse P tok = Some (JObj fs) \<and> map_of fs ''rawId'' = None
      \<longrightarrow> getAuthMethodId P \<lparr>authMethodType = WebAuthn, accessToken = tok\<rparr>
          = Inr (JStr (keccak256 P (toUtf8Bytes P ''undefined:lit''))))
   \<and> (decodeJwt P tok = Some (JObj fs) \<and> map_of fs ''sub'' = None \<and> map_of fs ''aud'' = None
      \<longrightarrow> getAuthMethodId P \<lparr>authMethodType = GoogleJwt, accessToken = tok\<rparr>
          = Inr (JStr (keccak256 P (toUtf8Bytes P ''undefined:undefined''))))
   \<and> (length (str_split CHR ''.'' tok) = 3
        \<and> JSON_parse P (Buffer_base64_ascii P (str_split CHR ''.'' tok ! 1)) = Some (JObj fs)
        \<and> (map_of fs ''orgId'' = None \<or> map_of fs ''extraData'' = None)
      \<longrightarrow> getAuthMethodId P \<lparr>authMethodType = OTP, accessToken = tok\<rparr> = Inl TypeError)"
proof -
  have otp1: "length (str_split CHR ''.'' tok) \<noteq> 3
      \<Longrightarrow> getAuthMethodId P \<lparr>authMethodType = OTP, accessToken = tok\<rparr> = Inl InvalidTokenLength"
    by (simp add: getAuthMethodId_def getOTPMethodId_def parseOTPJWT_def)
  have otp2: "length (str_split CHR ''.'' tok) = 3
        \<and> JSON_parse P (Buffer_base64_ascii P (str_split CHR ''.'' tok ! 1)) = None
      \<Longrightarrow> getAuthMethodId P \<lparr>authMethodType = OTP, accessToken = tok\<rparr> = Inl SyntaxError"
    by (simp add: getAuthMethodId_def getOTPMethodId_def parseOTPJWT_def)
  have js: "JSON_parse P tok = None
      \<Longrightarrow> getAuthMethodId P \<lparr>authMethodType = EthWallet, accessToken = tok\<rparr> = Inl SyntaxError
        \<and> getAuthMethodId P \<lparr>authMethodType = WebAuthn, accessToken = tok\<rparr> = Inl SyntaxError"
    by (simp add: getAuthMethodId_def getEthWalletAuthMethodId_def getWebAuthnAuthMethodId_def)
  have go: "decodeJwt P tok = None
      \<Longrightarrow> getAuthMethodId P \<lparr>authMethodType = GoogleJwt, accessToken = tok\<rparr> = Inl JWTInvalid"
    by (simp add: getAuthMethodId_def getGoogleAuthMethodId_def getGoogleUserInfo_def)
  have di: "fetchDiscordMe P tok = Inr (False, b)
      \<Longrightarrow> getAuthMethodId P \<lparr>authMethodType = Discord, accessToken = tok\<rparr>
          = Inl UnableToFetchDiscordUserInfo"
    by (simp add: getAuthMethodId_def getDiscordAuthMethodId_def getDiscordUserInfo_def)
  have m1: "JSON_parse P tok = Some (JObj fs) \<and> map_of fs ''address'' = None
      \<Longrightarrow> getAuthMethodId P \<lparr>authMethodType = EthWallet, accessToken = tok\<rparr> = Inr JUndefined"
    by (simp add: getAuthMethodId_def getEthWalletAuthMethodId_def)
  have m2: "JSON_parse P tok = Some (JObj fs) \<and> map_of fs ''rawId'' = None
      \<Longrightarrow> getAuthMethodId P \<lparr>authMethodType = WebAuthn, accessToken = tok\<rparr>
          = Inr (JStr (keccak256 P (toUtf8Bytes P ''undefined:lit'')))"
    by (simp add: getAuthMethodId_def getWebAuthnAuthMethodId_def hash_text_def)
  have m3: "decodeJwt P tok = Some (JObj fs) \<and> map_of fs ''sub'' = None \<and> map_of fs ''aud'' = None
      \<Longrightarrow> getAuthMethodId P \<lparr>authMethodType = GoogleJwt, accessToken = tok\<rparr>
          = Inr (JStr (keccak256 P (toUtf8Bytes P ''undefined:undefined'')))"
    by (simp add: getAuthMethodId_def getGoogleAuthMethodId_def getGoogleUserInfo_def hash_text_def)
  have m4: "length (str_split CHR ''.'' tok) = 3
        \<and> JSON_parse P (Buffer_base64_ascii P (str_split CHR ''.'' tok ! 1)) = Some (JObj fs)
        \<and> (map_of fs ''orgId'' = None \<or> map_of fs ''extraData'' = None)
      \<Longrightarrow> getAuthMethodId P \<lparr>authMethodType = OTP, accessToken = tok\<rparr> = Inl TypeError"
    by (auto simp: getAuthMethodId_def getOTPMethodId_def parseOTPJWT_def val_toLowerCase_def
                   val_split_def
             split: option.splits sum.splits jsval.splits)
  from otp1 otp2 js go di m1 m2 m3 m4 show ?thesis by blast
qed

theorem malformed_token_outcomes_witness:
  "length (str_split CHR ''.'' ''h.p'') \<noteq> 3
   \<and> getAuthMethodId sample_platform \<lparr>authMethodType = OTP, accessToken = ''h.p''\<rparr>
       = Inl InvalidTokenLength
   \<and> length (str_split CHR ''.'' ''h.p.s'') = 3
   \<and> JSON_parse sample_platform
         (Buffer_base64_ascii sample_platform (str_split CHR ''.'' ''h.p.s'' ! 1)) = None
   \<and> getAuthMethodId sample_platform \<lparr>authMethodType = OTP, accessToken = ''h.p.s''\<rparr>
       = Inl SyntaxError
   \<and> JSON_parse sample_platform ''{'' = None
   \<and> getAuthMethodId sample_platform \<lparr>authMethodType = EthWallet, accessToken = ''{''\<rparr>
       = Inl SyntaxError
   \<and> getAuthMethodId sample_platform \<lparr>authMethodType = WebAuthn, accessToken = ''{''\<rparr>
       = Inl SyntaxError
   \<and> decodeJwt sample_platform ''h.p'' = None
   \<and> getAuthMethodId sample_platform \<lparr>authMethodType = GoogleJwt, accessToken = ''h.p''\<rparr>
       = Inl JWTInvalid
   \<and> JSON_parse sample_platform ''{}'' = Some (JObj [])
   \<and> getAuthMethodId sample_platform \<lparr>authMethodType = EthWallet, accessToken = ''{}''\<rparr>
       = Inr JUndefined
   \<and> getAuthMethodId sample_platform \<lparr>authMethodType = WebAuthn, accessToken = ''{}''\<rparr>
       = Inr (JStr (keccak256 sample_platform (toUtf8Bytes sample_platform ''undefined:lit'')))"
proof -
  have a: "length (str_split CHR ''.'' ''h.p'') \<noteq> 3"
    and a3: "length (str_split CHR ''.'' ''h.p.s'') = 3"
    by simp_all
  have b3: "JSON_parse sample_platform
              (Buffer_base64_ascii sample_platform (str_split CHR ''.'' ''h.p.s'' ! 1)) = None"
    by (simp add: sample_platform_def sample_json_def sample_otp_body_def)
  have b: "JSON_parse sample_platform ''{'' = None"
    by (simp add: sample_platform_def sample_json_def sample_otp_body_def)
  have c: "decodeJwt sample_platform ''h.p'' = None"
    by (simp add: sample_platform_def)
  have d: "JSON_parse sample_platform ''{}'' = Some (JObj [])"
    by (simp add: sample_platform_def sample_json_def sample_otp_body_def)
  have m: "map_of ([] :: (string \<times> nat jsval) list) ''address'' = None"
    "map_of ([] :: (string \<times> nat jsval) list) ''rawId'' = None"
    by simp_all
  from malformed_token_outcomes [of "''h.p''" sample_platform]
       malformed_token_outcomes [of "''h.p.s''" sample_platform]
       malformed_token_outcomes [of "''{''" sample_platform]
       malformed_token_outcomes [of "''{}''" sample_platform _ "[]"]
       a a3 b3 b c d m
  show ?thesis by simp
qed

text \<open>
  The claim as it stands has every rule fail on missing claims. On the token \<open>{}\<close>, an
  assertion without \<open>rawId\<close> and a signature without \<open>address\<close>, the WebAuthn rule
  returns the hash of \<open>undefined:lit\<close> and the wallet rule returns \<open>undefined\<close>.
\<close>

theorem missing_claim_counterexample:
  "JSON_parse sample_platform ''{}'' = Some (JObj [])
   \<and> getAuthMethodId sample_platform \<lparr>authMethodType = WebAuthn, accessToken = ''{}''\<rparr>
       = Inr (JStr ''0xfd4e444585dd9b8351282d4d2ca139a3782cc02d91ad0793cc09c1cefcdbac06'')
   \<and> keccak256 sample_platform (toUtf8Bytes sample_platform ''undefined:lit'')
       = ''0xfd4e444585dd9b8351282d4d2ca139a3782cc02d91ad0793cc09c1cefcdbac06''
   \<and> getAuthMethodId sample_platform \<lparr>authMethodType = EthWallet, accessToken = ''{}''\<rparr>
       = Inr JUndefined"
  by (simp add: getAuthMethodId_def getWebAuthnAuthMethodId_def getEthWalletAuthMethodId_def
                hash_text_def sample_platform_def sample_json_def sample_otp_body_def sample_keccak256_def)

subsection \<open>C8: the identifier of an OTP token\<close>

text \<open>
  C8: for a JWT of three segments whose body is JSON with the strings \<open>orgId\<close> and
  \<open>extraData\<close>, the identifier is the Keccak-256 hash of the UTF-8 bytes of the user id,
  a colon and the organisation id, where the user id is \<open>extraData\<close> up to its first
  \<open>|\<close>, as it is, and the organisation id is \<open>orgId\<close> in lower case. With
  \<open>user-42|extra-context\<close> and \<open>OrgABC\<close> the text hashed is \<open>user-42:orgabc\<close>.
\<close>

theorem otp_identifier:
  assumes parts: "str_split CHR ''.'' tok = [h, b, s]"
    and body: "JSON_parse P (Buffer_base64_ascii P b) = Some body"
    and org: "getprop body ''orgId'' = Inr (JStr orgId)"
    and extra: "getprop body ''extraData'' = Inr (JStr extraData)"
  shows "getAuthMethodId P \<lparr>authMethodType = OTP, accessToken = tok\<rparr>
           = Inr (JStr (keccak256 P (toUtf8Bytes P
                   (takeWhile (\<lambda>c. c \<noteq> CHR ''|'') extraData @ '':'' @ toLowerCase orgId))))
       \<and> (extraData = ''user-42|extra-context'' \<and> orgId = ''OrgABC''
            \<longrightarrow> getAuthMethodId P \<lparr>authMethodType = OTP, accessToken = tok\<rparr>
                = Inr (JStr (keccak256 P (toUtf8Bytes P ''user-42:orgabc''))))"
proof -
  have p: "parseOTPJWT P tok = Inr body"
    using parts body by (simp add: parseOTPJWT_def)
  have r: "getAuthMethodId P \<lparr>authMethodType = OTP, accessToken = tok\<rparr>
           = Inr (JStr (keccak256 P (toUtf8Bytes P
                   (takeWhile (\<lambda>c. c \<noteq> CHR ''|'') extraData @ '':'' @ toLowerCase orgId))))"
    using p org extra
    by (simp add: getAuthMethodId_def getOTPMethodId_def val_toLowerCase_def val_split_def
                  hd_str_split hash_text_def)
  have e: "takeWhile (\<lambda>c. c \<noteq> CHR ''|'') ''user-42|extra-context'' @ '':'' @ toLowerCase ''OrgABC''
             = ''user-42:orgabc''"
    by (simp add: toLowerCase_def lower_char_def char_of_eq_iff)
  from r e show ?thesis by auto
qed

theorem otp_identifier_witness:
  "getAuthMethodId sample_platform
     \<lparr>authMethodType = OTP,
      accessToken = ''h.eyJvcmdJZCI6Ik9yZ0FCQyIsImV4dHJhRGF0YSI6InVzZXItNDJ8ZXh0cmEtY29udGV4dCJ9.s''\<rparr>
     = Inr (JStr ''0x7a1d9bcf76e7f7ba5b5031e9eb8fd26aa97b6dac0225c34e4175ccac9e542de1'')
   \<and> keccak256 sample_platform (toUtf8Bytes sample_platform ''user-42:orgabc'')
     = ''0x7a1d9bcf76e7f7ba5b5031e9eb8fd26aa97b6dac0225c34e4175ccac9e542de1''"
proof -
  have parts: "str_split CHR ''.''
                 ''h.eyJvcmdJZCI6Ik9yZ0FCQyIsImV4dHJhRGF0YSI6InVzZXItNDJ8ZXh0cmEtY29udGV4dCJ9.s''
               = [''h'', ''eyJvcmdJZCI6Ik9yZ0FCQyIsImV4dHJhRGF0YSI6InVzZXItNDJ8ZXh0cmEtY29udGV4dCJ9'', ''s'']"
    by simp
  have body: "JSON_parse sample_platform
                (Buffer_base64_ascii sample_platform
                   ''eyJvcmdJZCI6Ik9yZ0FCQyIsImV4dHJhRGF0YSI6InVzZXItNDJ8ZXh0cmEtY29udGV4dCJ9'')
              = Some (JObj [(''orgId'', JStr ''OrgABC''),
                            (''extraData'', JStr ''user-42|extra-context'')])"
    by (simp add: sample_platform_def sample_json_def sample_otp_body_def)
  have org: "getprop (JObj [(''orgId'', JStr ''OrgABC''),
                            (''extraData'', JStr ''user-42|extra-context'')] :: nat jsval) ''orgId''
               = Inr (JStr ''OrgABC'')"
    and extra: "getprop (JObj [(''orgId'', JStr ''OrgABC''),
                            (''extraData'', JStr ''user-42|extra-context'')] :: nat jsval) ''extraData''
               = Inr (JStr ''user-42|extra-context'')"
    by simp_all
  have lc: "toLowerCase ''OrgABC'' = ''orgabc''"
    by (simp add: toLowerCase_def lower_char_def char_of_eq_iff)
  have k: "keccak256 sample_platform (toUtf8Bytes sample_platform ''user-42:orgabc'')
             = ''0x7a1d9bcf76e7f7ba5b5031e9eb8fd26aa97b6dac0225c34e4175ccac9e542de1''"
    by (simp add: sample_platform_def sample_keccak256_def)
  from otp_identifier [OF parts body org extra] k lc
  show ?thesis by simp
qed

subsection \<open>C9: the identifier of a WebAuthn credential\<close>

text \<open>
  C9: for assertions whose \<open>rawId\<close> is a string, the provider instance and the rule of
  the dispatcher both return \<open>webauthn_id\<close> of it, the hash of the UTF-8 bytes of
  \<open>"<rawId>:lit"\<close>: the identifier depends on \<open>rawId\<close> alone, equal \<open>rawId\<close>s give
  equal identifiers, and different \<open>rawId\<close>s give different texts to hash, so different
  identifiers unless the hash collides on these two texts.
\<close>

theorem webauthn_identifier:
  assumes r1: "getprop r1 ''rawId'' = Inr (JStr id1)"
    and r2: "getprop r2 ''rawId'' = Inr (JStr id2)"
  shows "WebAuthnProvider_getAuthMethodId P (this\<lparr>priv_attestationResponse := r1\<rparr>)
           = Inr (webauthn_id P id1)
       \<and> (JSON_parse P tok = Some r1
            \<longrightarrow> getAuthMethodId P \<lparr>authMethodType = WebAuthn, accessToken = tok\<rparr>
                = Inr (JStr (webauthn_id P id1)))
       \<and> (id1 = id2
            \<longrightarrow> WebAuthnProvider_getAuthMethodId P (this\<lparr>priv_attestationResponse := r1\<rparr>)
                = WebAuthnProvider_getAuthMethodId P (that\<lparr>priv_attestationResponse := r2\<rparr>))
       \<and> (id1 \<noteq> id2
            \<longrightarrow> id1 @ '':lit'' \<noteq> id2 @ '':lit''
              \<and> (inj_on (\<lambda>s. keccak256 P (toUtf8Bytes P s)) {id1 @ '':lit'', id2 @ '':lit''}
                   \<longrightarrow> WebAuthnProvider_getAuthMethodId P (this\<lparr>priv_attestationResponse := r1\<rparr>)
                       \<noteq> WebAuthnProvider_getAuthMethodId P (that\<lparr>priv_attestationResponse := r2\<rparr>)))"
proof -
  have t: "truthy_val P r" if "getprop r ''rawId'' = Inr (JStr i)" for r :: "'a jsval" and i
    using that by (cases r) (simp_all add: truthy_val_def)
  have prov: "WebAuthnProvider_getAuthMethodId P (x\<lparr>priv_attestationResponse := r\<rparr>)
                = Inr (webauthn_id P i)"
    if "getprop r ''rawId'' = Inr (JStr i)" for r i and x :: "'a WebAuthnProvider"
    using that t [OF that]
    by (simp add: WebAuthnProvider_getAuthMethodId_def webauthn_id_def hash_text_def)
  have alone: "JSON_parse P tok = Some r1
            \<Longrightarrow> getAuthMethodId P \<lparr>authMethodType = WebAuthn, accessToken = tok\<rparr>
                = Inr (JStr (webauthn_id P id1))"
    using r1 by (simp add: getAuthMethodId_def getWebAuthnAuthMethodId_def webauthn_id_def
                           hash_text_def)
  have differ: "webauthn_id P id1 \<noteq> webauthn_id P id2"
    if "id1 \<noteq> id2"
      and "inj_on (\<lambda>s. keccak256 P (toUtf8Bytes P s)) {id1 @ '':lit'', id2 @ '':lit''}"
    using that by (auto simp: webauthn_id_def inj_on_def)
  from prov [OF r1] prov [OF r2] alone differ show ?thesis by auto
qed

theorem webauthn_identifier_witness:
  \<open>WebAuthnProvider_getAuthMethodId sample_platform
     (WebAuthnProvider_new ''https://rpc.example''
        \<lparr>priv_attestationResponse := JObj [(''rawId'', JStr ''cred-1'')]\<rparr>)
     = Inr ''0x2b2861c3e6ac15739ff9c9257f759e67ada8d072422e97f7f25780102191e3e6''
   \<and> getAuthMethodId sample_platform
       \<lparr>authMethodType = WebAuthn, accessToken = ''{"rawId":"cred-1"}''\<rparr>
     = Inr (JStr ''0x2b2861c3e6ac15739ff9c9257f759e67ada8d072422e97f7f25780102191e3e6'')
   \<and> WebAuthnProvider_getAuthMethodId sample_platform
       (WebAuthnProvider_new ''https://rpc.example''
          \<lparr>priv_attestationResponse := JObj [(''rawId'', JStr ''cred-1'')]\<rparr>)
     \<noteq> WebAuthnProvider_getAuthMethodId sample_platform
         (WebAuthnProvider_new ''https://rpc.example''
            \<lparr>priv_attestationResponse := JObj [(''rawId'', JStr ''cred-2'')]\<rparr>)\<close>
proof -
  have r1: "getprop (JObj [(''rawId'', JStr ''cred-1'')] :: nat jsval) ''rawId''
              = Inr (JStr ''cred-1'')"
    and r2: "getprop (JObj [(''rawId'', JStr ''cred-2'')] :: nat jsval) ''rawId''
              = Inr (JStr ''cred-2'')"
    by simp_all
  have p: \<open>JSON_parse sample_platform ''{"rawId":"cred-1"}''
             = Some (JObj [(''rawId'', JStr ''cred-1'')])\<close>
    by (simp add: sample_platform_def sample_json_def sample_otp_body_def)
  have k1: "webauthn_id sample_platform ''cred-1''
              = ''0x2b2861c3e6ac15739ff9c9257f759e67ada8d072422e97f7f25780102191e3e6''"
    and k2: "webauthn_id sample_platform ''cred-2''
              = ''0x2cb26f3c7a4553205fd4fa0ecd7b301fc3646492560a1dc724d360171f0e3247''"
    by (simp_all add: webauthn_id_def sample_platform_def sample_keccak256_def)
  have ne: "''cred-1'' \<noteq> ''cred-2''" by simp
  have inj: "inj_on (\<lambda>s. keccak256 sample_platform (toUtf8Bytes sample_platform s))
               {''cred-1'' @ '':lit'', ''cred-2'' @ '':lit''}"
    by (simp add: inj_on_def sample_platform_def sample_keccak256_def)
  from webauthn_identifier
         [OF r1 r2, where P = sample_platform
            and this = "WebAuthnProvider_new ''https://rpc.example''"
            and that = "WebAuthnProvider_new ''https://rpc.example''"
            and tok = \<open>''{"rawId":"cred-1"}''\<close>] p k1 k2 ne inj
  show ?thesis by auto
qed

subsection \<open>C10: no identifier before a successful authentication\<close>

text \<open>
  C10: for the wallet, WebAuthn and Apple providers, \<open>getAuthMethodId\<close> of a new
  instance fails with the provider's call-authenticate-first error; an \<open>authenticate\<close>
  that fails returns the instance as it was, so that the private field it would have set
  is still unset and \<open>getAuthMethodId\<close> fails in the same way after it.
\<close>

theorem getAuthMethodId_needs_authenticate:
  "EthWalletProvider_getAuthMethodId (EthWalletProvider_new dm og w0) = Inl AuthSigNotDefined
   \<and> (EthWalletProvider_authenticate P e options w = (Inl err, e', w') \<longrightarrow> e' = e)
   \<and> (priv_authSig e = None \<and> EthWalletProvider_authenticate P e options w = (Inl err, e', w')
        \<longrightarrow> EthWalletProvider_getAuthMethodId e' = Inl AuthSigNotDefined)
   \<and> WebAuthnProvider_getAuthMethodId P (WebAuthnProvider_new url) = Inl AuthDataNotDefined
   \<and> (WebAuthnProvider_authenticate P v w = (Inl err, v') \<longrightarrow> v' = v)
   \<and> (\<not> truthy_val P (priv_attestationResponse v)
        \<and> WebAuthnProvider_authenticate P v w = (Inl err, v')
        \<longrightarrow> WebAuthnProvider_getAuthMethodId P v' = Inl AuthDataNotDefined)
   \<and> AppleProvider_getAuthMethodId P (AppleProvider_new ru w0) = Inl IdTokenNotDefined
   \<and> (AppleProvider_authenticate P a w = (Inl err, a', w') \<longrightarrow> a' = a)
   \<and> (\<not> truthy (priv_idToken a) \<and> AppleProvider_authenticate P a w = (Inl err, a', w')
        \<longrightarrow> AppleProvider_getAuthMethodId P a' = Inl IdTokenNotDefined)"
proof -
  have e0: "EthWalletProvider_getAuthMethodId (EthWalletProvider_new dm og w0)
              = Inl AuthSigNotDefined"
    by (simp add: EthWalletProvider_getAuthMethodId_def EthWalletProvider_new_def)
  have e1: "e' = e" if "EthWalletProvider_authenticate P e options w = (Inl err, e', w')"
    using that
    by (auto simp: EthWalletProvider_authenticate_def Let_def
             split: prod.splits sum.splits option.splits)
  have e2: "EthWalletProvider_getAuthMethodId e' = Inl AuthSigNotDefined"
    if "priv_authSig e = None" "EthWalletProvider_authenticate P e options w = (Inl err, e', w')"
    using that e1 [OF that(2)] by (simp add: EthWalletProvider_getAuthMethodId_def)
  have v0: "WebAuthnProvider_getAuthMethodId P (WebAuthnProvider_new url) = Inl AuthDataNotDefined"
    by (simp add: WebAuthnProvider_getAuthMethodId_def WebAuthnProvider_new_def truthy_val_def)
  have v1: "v' = v" if "WebAuthnProvider_authenticate P v w = (Inl err, v')"
    using that
    by (auto simp: WebAuthnProvider_authenticate_def Let_def
             split: sum.splits option.splits)
  have v2: "WebAuthnProvider_getAuthMethodId P v' = Inl AuthDataNotDefined"
    if "\<not> truthy_val P (priv_attestationResponse v)"
       "WebAuthnProvider_authenticate P v w = (Inl err, v')"
    using that v1 [OF that(2)] by (simp add: WebAuthnProvider_getAuthMethodId_def)
  have a0: "AppleProvider_getAuthMethodId P (AppleProvider_new ru w0) = Inl IdTokenNotDefined"
    by (simp add: AppleProvider_getAuthMethodId_def AppleProvider_new_def truthy_def)
  have a1: "a' = a" if "AppleProvider_authenticate P a w = (Inl err, a', w')"
    using that
    by (auto simp: AppleProvider_authenticate_def Let_def
             split: sum.splits bool.splits if_splits)
  have a2: "AppleProvider_getAuthMethodId P a' = Inl IdTokenNotDefined"
    if "\<not> truthy (priv_idToken a)" "AppleProvider_authenticate P a w = (Inl err, a', w')"
    using that a1 [OF that(2)] by (simp add: AppleProvider_getAuthMethodId_def)
  from e0 e1 e2 v0 v1 v2 a0 a1 a2 show ?thesis by blast
qed

theorem getAuthMethodId_needs_authenticate_witness:
  "priv_authSig sample_wallet = None
   \<and> EthWalletProvider_authenticate sample_platform sample_wallet
        (Some (sample_options\<lparr>opt_address := Some ''0x12''\<rparr>)) sample_window
       = (Inl InvalidArgument, sample_wallet, sample_window)
   \<and> EthWalletProvider_getAuthMethodId sample_wallet = Inl AuthSigNotDefined
   \<and> WebAuthnProvider_authenticate sample_platform (WebAuthnProvider_new ''https://down.example'')
        sample_window
       = (Inl (Rejected ''network''), WebAuthnProvider_new ''https://down.example'')
   \<and> WebAuthnProvider_getAuthMethodId sample_platform (WebAuthnProvider_new ''https://down.example'')
       = Inl AuthDataNotDefined
   \<and> AppleProvider_authenticate sample_platform sample_apple sample_window
       = (Inl (InvalidStateParameter (Some ''eHl6Nzg5'')), sample_apple, sample_window)
   \<and> AppleProvider_getAuthMethodId sample_platform sample_apple = Inl IdTokenNotDefined"
proof -
  have e: "priv_authSig sample_wallet = None"
    by (simp add: sample_wallet_def EthWalletProvider_new_def)
  have er: "EthWalletProvider_authenticate sample_platform sample_wallet
              (Some (sample_options\<lparr>opt_address := Some ''0x12''\<rparr>)) sample_window
            = (Inl InvalidArgument, sample_wallet, sample_window)"
    by (simp add: EthWalletProvider_authenticate_def sign_with_def truthy_def Let_def
                  cache_enabled_def address_and_signer_def sample_platform_def sample_options_def)
  have v: "\<not> truthy_val sample_platform
               (priv_attestationResponse (WebAuthnProvider_new ''https://down.example''))"
    by (simp add: WebAuthnProvider_new_def truthy_val_def)
  have vr: "WebAuthnProvider_authenticate sample_platform
              (WebAuthnProvider_new ''https://down.example'') sample_window
            = (Inl (Rejected ''network''), WebAuthnProvider_new ''https://down.example'')"
    by (simp add: WebAuthnProvider_authenticate_def WebAuthnProvider_new_def sample_platform_def)
  have a: "\<not> truthy (priv_idToken sample_apple)"
    by (simp add: sample_apple_def AppleProvider_new_def truthy_def)
  have ar: "AppleProvider_authenticate sample_platform sample_apple sample_window
            = (Inl (InvalidStateParameter (Some ''eHl6Nzg5'')), sample_apple, sample_window)"
    by (simp add: AppleProvider_authenticate_def state_param_invalid_def decode_def
                  parseLoginParams_def getStateParam_def STATE_PARAM_KEY_def truthy_def Let_def
                  sample_platform_def sample_query_def sample_apple_def AppleProvider_new_def
                  sample_window_def)
  from getAuthMethodId_needs_authenticate
         [of "Some ''app.example''" "Some ''https://app.example''" sample_window
             sample_platform sample_wallet
             "Some (sample_options\<lparr>opt_address := Some ''0x12''\<rparr>)" sample_window
             InvalidArgument sample_wallet sample_window]
       getAuthMethodId_needs_authenticate
         [of _ _ _ sample_platform _ _ sample_window "Rejected ''network''" _ _ _
             "WebAuthnProvider_new ''https://down.example''"
             "WebAuthnProvider_new ''https://down.example''"]
       getAuthMethodId_needs_authenticate
         [of _ _ _ sample_platform _ _ sample_window "InvalidStateParameter (Some ''eHl6Nzg5'')"
             _ sample_window _ _ _ _ sample_apple sample_apple]
       e er v vr a ar
  show ?thesis by simp
qed

end
